theory Spec2Isabelle
  imports Complex_Main
begin

unbundle bit_operations_syntax

section \<open>Arrays and errors\<close>

text \<open>
  The module \<^verbatim>\<open>nimrud/utils/geometry.py\<close> works on numpy arrays of floating point
  coordinates. A two-dimensional array of shape \<open>(N, d)\<close> is modelled as the list of
  its \<open>N\<close> rows, each a list of \<open>d\<close> coordinates; coordinates are real numbers, so
  rounding of the floating point operations is not part of the model. Python
  exceptions are values of the type \<open>error\<close>, which keeps the exception class and
  the message of the source.
\<close>

datatype error = ValueError string | NameError string | IndexError string | TypeError string

type_synonym point = "real list"
type_synonym cloud = "real list list"

definition MAX_ADDRESS_LENGTH :: int where
  "MAX_ADDRESS_LENGTH = 64"

text \<open>\<^verbatim>\<open>points.shape[1]\<close>; an array without rows is given no columns.\<close>

definition ncols :: "'a list list \<Rightarrow> nat" where
  "ncols pts = (case pts of [] \<Rightarrow> 0 | r # _ \<Rightarrow> length r)"

text \<open>\<^verbatim>\<open>points.ndim == 2\<close>: the rows form a rectangular array.\<close>

definition is_2d :: "'a list list \<Rightarrow> bool" where
  "is_2d pts = list_all (\<lambda>r. length r = ncols pts) pts"

text \<open>
  \<^verbatim>\<open>points.min(0)\<close> and \<^verbatim>\<open>points.max(0)\<close>: the minimum and maximum of every
  column. numpy raises a ValueError when the array has no rows.
\<close>

fun amin0 :: "cloud \<Rightarrow> error + point" where
  "amin0 [] = Inl (ValueError ''zero-size array to reduction operation minimum which has no identity'')"
| "amin0 (r # rs) = Inr (fold (\<lambda>x acc. map2 min acc x) rs r)"

fun amax0 :: "cloud \<Rightarrow> error + point" where
  "amax0 [] = Inl (ValueError ''zero-size array to reduction operation maximum which has no identity'')"
| "amax0 (r # rs) = Inr (fold (\<lambda>x acc. map2 max acc x) rs r)"

text \<open>\<^verbatim>\<open>np.cumsum\<close>: the running sums of a sequence.\<close>

fun cumsum_from :: "int \<Rightarrow> int list \<Rightarrow> int list" where
  "cumsum_from acc [] = []"
| "cumsum_from acc (x # xs) = (acc + x) # cumsum_from (acc + x) xs"

definition cumsum :: "int list \<Rightarrow> int list" where
  "cumsum xs = cumsum_from 0 xs"

text \<open>
  Arithmetic on \<^verbatim>\<open>np.int64\<close> wraps around; the wrap-around is written out on
  \<open>int\<close>.
\<close>

definition int64 :: "int \<Rightarrow> int" where
  "int64 x = (x + 2 ^ 63) mod 2 ^ 64 - 2 ^ 63"

section \<open>VoxelFilter\<close>

record VoxelFilter =
  minimum_corner :: point
  maximum_corner :: point
  edge_length :: real
  shifts :: "int list"
  widths :: "int list"
  masks :: "int list"

text \<open>
  \<^verbatim>\<open>_calculate_shift\<close>: the number of address bits of every axis, and the shifts of
  the axes after the first. It reads the corners and the edge length of the filter
  under construction, which are parameters here. The quotient and the logarithm are
  those of the real numbers, which is what numpy computes for a positive edge
  length; for an edge length that is not positive numpy computes with \<open>inf\<close> and
  \<open>nan\<close>, which the model does not have, so every statement below about a
  constructed filter assumes \<open>0 < edge\<close>.
\<close>

definition calculate_shift :: "point \<Rightarrow> point \<Rightarrow> real \<Rightarrow> error + (int list \<times> int list)" where
  "calculate_shift min_corner max_corner edge =
     (let span = map2 (-) max_corner min_corner;
          address_widths = map (\<lambda>s. \<lceil>log 2 (s / edge)\<rceil>) span
      in if sum_list address_widths > MAX_ADDRESS_LENGTH
         then Inl (ValueError ''edge length is too small to address this space'')
         else Inr (butlast (cumsum address_widths), address_widths))"

text \<open>
  \<^verbatim>\<open>_calculate_masks\<close>. The literal \<^verbatim>\<open>"0b" + "1" * this_width\<close> has no digit when
  the width is not positive, and \<^verbatim>\<open>int\<close> then raises a ValueError. Otherwise its
  value is \<open>2 ^ this_width - 1\<close>. The loop shifts the mask of axis \<open>num + 1\<close>; the
  shift amount is an \<^verbatim>\<open>np.int64\<close>, so the shifted mask is an \<^verbatim>\<open>np.int64\<close> too and
  wraps around: when the widths sum to 64 the last mask is negative. The mask of
  axis 0 stays a Python integer.
\<close>

fun shift_masks :: "(nat \<times> int) list \<Rightarrow> int list \<Rightarrow> error + int list" where
  "shift_masks [] ms = Inr ms"
| "shift_masks ((num, this_shift) # rest) ms =
     (if num + 1 < length ms
      then shift_masks rest (ms[num + 1 := int64 (push_bit (nat this_shift) (ms ! (num + 1)))])
      else Inl (IndexError ''list index out of range''))"

definition calculate_masks :: "int list \<Rightarrow> int list \<Rightarrow> error + int list" where
  "calculate_masks sh ws =
     (if list_ex (\<lambda>this_width. this_width \<le> 0) ws
      then Inl (ValueError ''invalid literal for int() with base 2'')
      else shift_masks (enumerate 0 sh) (map (\<lambda>this_width. 2 ^ nat this_width - 1) ws))"

text \<open>\<^verbatim>\<open>VoxelFilter.__init__\<close>.\<close>

definition VoxelFilter_init :: "cloud \<Rightarrow> real \<Rightarrow> error + VoxelFilter" where
  "VoxelFilter_init points edge =
     (if \<not> is_2d points then Inl (ValueError ''wrong point cloud array shape'')
      else if ncols points \<notin> {2, 3} then Inl (ValueError ''only 2D and 3D spaces supported'')
      else if length points < 2
        then Inl (ValueError ''need at least 2 points to define a voxel grid'')
      else (case amin0 points of Inl e \<Rightarrow> Inl e | Inr lowest \<Rightarrow>
           (case amax0 points of Inl e \<Rightarrow> Inl e | Inr highest \<Rightarrow>
           (let min_corner = map (\<lambda>x. x - edge / 2) lowest;
                max_corner = map (\<lambda>x. x + edge / 2) highest
            in (case calculate_shift min_corner max_corner edge of Inl e \<Rightarrow> Inl e
               | Inr (sh, ws) \<Rightarrow>
                 (case calculate_masks sh ws of Inl e \<Rightarrow> Inl e
                  | Inr ms \<Rightarrow> Inr \<lparr>minimum_corner = min_corner, maximum_corner = max_corner,
                       edge_length = edge, shifts = sh, widths = ws, masks = ms\<rparr>))))))"

text \<open>
  \<^verbatim>\<open>_check_in_bounds\<close>. A single point is lifted to an array of one row by
  \<^verbatim>\<open>np.atleast_2d\<close>; the model takes the array of rows.
\<close>

definition check_in_bounds :: "VoxelFilter \<Rightarrow> cloud \<Rightarrow> error + cloud" where
  "check_in_bounds vf check_points =
     (if \<not> is_2d check_points then Inl (ValueError ''wrong array shape'')
      else if ncols check_points \<noteq> length (shifts vf) + 1
        then Inl (ValueError ''wrong number of spatial dimensions'')
      else (case amin0 check_points of Inl e \<Rightarrow> Inl e | Inr lowest \<Rightarrow>
           (case amax0 check_points of Inl e \<Rightarrow> Inl e | Inr highest \<Rightarrow>
            if list_ex (\<lambda>(x, c). x < c) (zip lowest (minimum_corner vf))
               \<or> list_ex (\<lambda>(x, c). x > c) (zip highest (maximum_corner vf))
            then Inl (ValueError ''some points fall outside filter bounding region'')
            else Inr check_points)))"

text \<open>
  \<^verbatim>\<open>coordinate_to_address\<close>. The voxel coordinates are an \<^verbatim>\<open>np.int64\<close> array;
  the loop shifts column \<open>col + 1\<close> of every row, and the rows are summed.
\<close>

fun shift_columns :: "(nat \<times> int) list \<Rightarrow> int list list \<Rightarrow> error + int list list" where
  "shift_columns [] vc = Inr vc"
| "shift_columns ((col, this_shift) # rest) vc =
     (if col + 1 < ncols vc
      then shift_columns rest
             (map (\<lambda>row. row[col + 1 := int64 (push_bit (nat this_shift) (row ! (col + 1)))]) vc)
      else Inl (IndexError ''index out of bounds''))"

definition coordinate_to_address :: "VoxelFilter \<Rightarrow> cloud \<Rightarrow> error + int list" where
  "coordinate_to_address vf points =
     (case check_in_bounds vf points of Inl e \<Rightarrow> Inl e | Inr pts \<Rightarrow>
        (let voxel_coordinates =
               map (\<lambda>p. map2 (\<lambda>x c. \<lfloor>(x - c) / edge_length vf\<rfloor>) p (minimum_corner vf)) pts
         in case shift_columns (enumerate 0 (shifts vf)) voxel_coordinates of Inl e \<Rightarrow> Inl e
            | Inr shifted \<Rightarrow> Inr (map (\<lambda>row. int64 (sum_list row)) shifted)))"

text \<open>
  \<^verbatim>\<open>np.atleast_1d\<close> of a Python integer or a list of Python integers: numpy chooses
  the type of the array from the values. All within the signed 64-bit range gives
  \<^verbatim>\<open>int64\<close>; otherwise all within the unsigned range gives \<^verbatim>\<open>uint64\<close>; a mixture of
  negative values and values from \<open>2 ^ 63\<close> on, all of at most 64 bits, gives
  \<^verbatim>\<open>float64\<close>, as does the empty list; a value of more than 64 bits gives an array of
  Python objects.
\<close>

datatype dtype = Int64 | UInt64 | Float64 | Object

definition atleast_1d_dtype :: "int list \<Rightarrow> dtype" where
  "atleast_1d_dtype addresses =
     (if addresses = [] then Float64
      else if list_all (\<lambda>a. - (2 ^ 63) \<le> a \<and> a < 2 ^ 63) addresses then Int64
      else if list_all (\<lambda>a. 0 \<le> a \<and> a < 2 ^ 64) addresses then UInt64
      else if list_all (\<lambda>a. - (2 ^ 63) \<le> a \<and> a < 2 ^ 64) addresses then Float64
      else Object)"

text \<open>
  \<^verbatim>\<open>address_to_coordinate\<close>. One column of masked addresses per mask; the loop
  shifts column \<open>num + 1\<close> back; \<^verbatim>\<open>np.concatenate\<close> along axis 1 turns the columns
  into rows; the last line needs as many corner coordinates as there are columns.
  The operator \<^verbatim>\<open>&\<close> has no loop for a \<^verbatim>\<open>float64\<close> array, and none for a
  \<^verbatim>\<open>uint64\<close> array with an \<^verbatim>\<open>np.int64\<close> mask (the masks after the first): it raises
  a TypeError. On an \<^verbatim>\<open>int64\<close> array \<^verbatim>\<open>&\<close> and \<^verbatim>\<open>>>\<close> are those of two's complement
  (the shift is arithmetic), which \<open>AND\<close> and \<open>drop_bit\<close> on \<open>int\<close> are as well; on
  an array of Python objects they are the operators of Python's integers, the same
  functions. Without any mask \<^verbatim>\<open>np.concatenate\<close> has nothing to join.
\<close>

fun shift_back :: "(nat \<times> int) list \<Rightarrow> int list list \<Rightarrow> error + int list list" where
  "shift_back [] vcl = Inr vcl"
| "shift_back ((num, this_shift) # rest) vcl =
     (if num + 1 < length vcl
      then shift_back rest (vcl[num + 1 := map (drop_bit (nat this_shift)) (vcl ! (num + 1))])
      else Inl (IndexError ''list index out of range''))"

definition address_to_coordinate :: "VoxelFilter \<Rightarrow> int list \<Rightarrow> error + cloud" where
  "address_to_coordinate vf addresses =
     (if (atleast_1d_dtype addresses = Float64 \<and> masks vf \<noteq> [])
         \<or> (atleast_1d_dtype addresses = UInt64 \<and> 1 < length (masks vf))
      then Inl (TypeError ''ufunc bitwise_and not supported for the input types'')
      else (let voxel_coordinate_list =
                  map (\<lambda>this_mask. map (\<lambda>a. a AND this_mask) addresses) (masks vf)
            in case shift_back (enumerate 0 (shifts vf)) voxel_coordinate_list of Inl e \<Rightarrow> Inl e
               | Inr shifted \<Rightarrow>
                 if shifted = [] then Inl (ValueError ''need at least one array to concatenate'')
                 else if length shifted \<noteq> length (minimum_corner vf)
                 then Inl (ValueError ''operands could not be broadcast together'')
                 else Inr (map (\<lambda>i. map2 (\<lambda>column c. of_int (column ! i) * edge_length vf + c
                                             + edge_length vf * 0.5) shifted (minimum_corner vf))
                            [0..<length addresses])))"

text \<open>
  \<^verbatim>\<open>find_neighbors\<close> and \<^verbatim>\<open>find_facing_neighbors\<close>: the body of each is a single
  \<^verbatim>\<open>raise\<close>.
\<close>

definition find_neighbors :: "VoxelFilter \<Rightarrow> int \<Rightarrow> error + int list" where
  "find_neighbors vf address = Inl (NameError ''find_neighbors not implemented yet'')"

definition find_facing_neighbors :: "VoxelFilter \<Rightarrow> int \<Rightarrow> error + int list" where
  "find_facing_neighbors vf address = Inl (NameError ''find_facing_neighbors not implemented yet'')"

section \<open>nested_regions\<close>

text \<open>
  The loop of the local function \<^verbatim>\<open>region_indices\<close> over
  \<^verbatim>\<open>enumerate(zip(low_side, high_side))\<close>. It reads column \<open>dimension\<close> of the points
  and appends a mask for the low bound only when the lowest point is below it, and
  a mask for the high bound only when the highest point is above it.
\<close>

fun region_masks :: "cloud \<Rightarrow> point \<Rightarrow> point \<Rightarrow> (nat \<times> real \<times> real) list \<Rightarrow> error + bool list list" where
  "region_masks points lowest_point highest_point [] = Inr []"
| "region_masks points lowest_point highest_point ((dimension, low_coordinate, high_coordinate) # rest) =
     (if dimension < ncols points
      then (let point_column = map (\<lambda>p. p ! dimension) points;
                low_mask = (if lowest_point ! dimension < low_coordinate
                            then [map (\<lambda>x. x \<ge> low_coordinate) point_column] else []);
                high_mask = (if highest_point ! dimension > high_coordinate
                             then [map (\<lambda>x. x \<le> high_coordinate) point_column] else [])
            in (case region_masks points lowest_point highest_point rest of Inl e \<Rightarrow> Inl e
                | Inr all_masks \<Rightarrow> Inr (low_mask @ high_mask @ all_masks)))
      else Inl (IndexError ''index out of bounds''))"

text \<open>
  \<^verbatim>\<open>region_indices\<close>: \<^verbatim>\<open>np.logical_and.reduce\<close> along axis 0 is the conjunction of
  the masks at every index, and \<^verbatim>\<open>nonzero()[0]\<close> the indices where it holds;
  without a mask the result is \<^verbatim>\<open>np.arange\<close> of the number of points.
\<close>

definition region_indices :: "cloud \<Rightarrow> point \<Rightarrow> point \<Rightarrow> error + nat list" where
  "region_indices points low_side high_side =
     (case amin0 points of Inl e \<Rightarrow> Inl e | Inr lowest_point \<Rightarrow>
     (case amax0 points of Inl e \<Rightarrow> Inl e | Inr highest_point \<Rightarrow>
     (case region_masks points lowest_point highest_point (enumerate 0 (zip low_side high_side)) of
        Inl e \<Rightarrow> Inl e
      | Inr all_masks \<Rightarrow>
          if length all_masks \<noteq> 0
          then (let final_mask = map (\<lambda>i. list_all (\<lambda>m. m ! i) all_masks) [0..<length points]
                in Inr (filter (\<lambda>i. final_mask ! i) [0..<length final_mask]))
          else Inr [0..<length points])))"

definition nested_regions ::
  "cloud \<Rightarrow> cloud \<Rightarrow> real \<Rightarrow> point \<Rightarrow> point \<Rightarrow> error + (nat list \<times> nat list)" where
  "nested_regions qs ss radius min_corner max_corner =
     (case region_indices qs min_corner max_corner of Inl e \<Rightarrow> Inl e | Inr query_indices \<Rightarrow>
     (case region_indices ss (map (\<lambda>c. c - radius) min_corner) (map (\<lambda>c. c + radius) max_corner) of
        Inl e \<Rightarrow> Inl e
      | Inr search_indices \<Rightarrow> Inr (query_indices, search_indices)))"

section \<open>NestedOctree\<close>

text \<open>
  The object state. \<^verbatim>\<open>self.cubes\<close> is a list whose elements
  \<^verbatim>\<open>partition_generator\<close> treats in two ways: an object with a
  \<^verbatim>\<open>partition_generator\<close> of its own (a child node), or anything else (the tuple of
  index arrays that \<^verbatim>\<open>partition\<close> appends).
\<close>

datatype NestedOctree =
  NestedOctree (query_set: cloud) (search_space: cloud) (buffer_radius: real)
    (octree_maximum_corner: point) (octree_minimum_corner: point) (cubes: "cube list")
and cube = Indices "nat list \<times> nat list" | Child NestedOctree

definition validate_input :: "cloud \<Rightarrow> error + unit" where
  "validate_input points =
     (if \<not> is_2d points then Inl (ValueError ''wrong point cloud array shape'')
      else if ncols points \<noteq> 3 then Inl (ValueError ''only 3D spaces are supported'')
      else if length points < 2 then Inl (ValueError ''need at least 2 points to partition'')
      else Inr ())"

text \<open>\<^verbatim>\<open>NestedOctree.__init__\<close>.\<close>

definition NestedOctree_init :: "cloud \<Rightarrow> cloud \<Rightarrow> real \<Rightarrow> error + NestedOctree" where
  "NestedOctree_init qs ss radius =
     (case validate_input qs of Inl e \<Rightarrow> Inl e | Inr _ \<Rightarrow>
     (case validate_input ss of Inl e \<Rightarrow> Inl e | Inr _ \<Rightarrow>
      if radius \<le> 0 then Inl (ValueError ''buffer radius cannot be negative'')
      else (case amax0 qs of Inl e \<Rightarrow> Inl e | Inr max_corner \<Rightarrow>
           (case amin0 qs of Inl e \<Rightarrow> Inl e | Inr min_corner \<Rightarrow>
              Inr (NestedOctree qs ss radius max_corner min_corner [])))))"

text \<open>
  \<^verbatim>\<open>NestedOctree.partition\<close>, returning the updated object. The branch for a
  population above \<open>max_population\<close> computes \<^verbatim>\<open>cube_edge\<close> (the builtin
  \<^verbatim>\<open>max\<close> raises on an empty sequence) and ends with \<^verbatim>\<open>pass\<close>.
\<close>

definition partition_octree :: "NestedOctree \<Rightarrow> int \<Rightarrow> real \<Rightarrow> error + NestedOctree" where
  "partition_octree self max_population minimum_factor =
     (case nested_regions (query_set self) (search_space self) (buffer_radius self)
             (octree_minimum_corner self) (octree_maximum_corner self) of
        Inl e \<Rightarrow> Inl e
      | Inr local_indices \<Rightarrow>
          if int (length (snd local_indices)) \<le> max_population
          then Inr (NestedOctree (query_set self) (search_space self) (buffer_radius self)
                      (octree_maximum_corner self) (octree_minimum_corner self)
                      (cubes self @ [Indices local_indices]))
          else (case map2 (-) (octree_maximum_corner self) (octree_minimum_corner self) of
                  [] \<Rightarrow> Inl (ValueError ''max() arg is an empty sequence'')
                | x # xs \<Rightarrow> (let cube_edge = fold max xs x * 0.5 in Inr self)))"

text \<open>
  \<^verbatim>\<open>NestedOctree.partition_generator\<close>: the sequence of the yielded pairs. A child
  yields its own partitions; for a tuple the attribute lookup fails and the tuple
  itself is yielded.
\<close>

fun partition_generator :: "NestedOctree \<Rightarrow> (nat list \<times> nat list) list"
  and cube_partitions :: "cube \<Rightarrow> (nat list \<times> nat list) list" where
  "partition_generator (NestedOctree qs ss radius max_corner min_corner cs) =
     concat (map cube_partitions cs)"
| "cube_partitions (Indices this_cube) = [this_cube]"
| "cube_partitions (Child node) = partition_generator node"

section \<open>Example filters\<close>

text \<open>
  Three filters as \<^verbatim>\<open>__init__\<close> builds them, each with edge length 1: of the points
  \<open>[[0,0],[3,4]]\<close>, of the points \<open>[[0,0],[3.25,3.25]]\<close>, and of the points
  \<open>[[0,0],[3000000000,3000000000]]\<close>, whose widths sum to 64 (lemmas
  \<open>example_filter_init\<close>, \<open>quarter_filter_init\<close> and \<open>wide_filter_init\<close> below).
\<close>

definition example_filter :: VoxelFilter where
  "example_filter = \<lparr>minimum_corner = [- 0.5, - 0.5], maximum_corner = [3.5, 4.5],
     edge_length = 1, shifts = [2], widths = [2, 3], masks = [3, 28]\<rparr>"

definition quarter_filter :: VoxelFilter where
  "quarter_filter = \<lparr>minimum_corner = [- 0.5, - 0.5], maximum_corner = [3.75, 3.75],
     edge_length = 1, shifts = [3], widths = [3, 3], masks = [7, 56]\<rparr>"

definition wide_filter :: VoxelFilter where
  "wide_filter = \<lparr>minimum_corner = [- 0.5, - 0.5],
     maximum_corner = [3000000000.5, 3000000000.5],
     edge_length = 1, shifts = [32], widths = [32, 32], masks = [4294967295, - 4294967296]\<rparr>"

section \<open>The addressing example\<close>

lemma ceiling_log2_eqI:
  assumes "2 ^ n < x" and "x \<le> 2 ^ Suc n"
  shows "\<lceil>log 2 x\<rceil> = int (Suc n)"
proof -
  have x: "0 < x" using assms(1) by (smt (verit) zero_less_power)
  have "real n < log 2 x"
    using assms(1) x by (simp add: less_log_iff powr_realpow)
  moreover have "2 powr real (Suc n) = 2 ^ Suc n"
    by (rule powr_realpow) simp
  then have "log 2 x \<le> real (Suc n)"
    using assms(2) x by (simp add: log_le_iff del: power_Suc of_nat_Suc)
  ultimately show ?thesis
    by (intro ceiling_unique) auto
qed

lemma ceiling_log2_4: "\<lceil>log 2 (4::real)\<rceil> = 2"
  using ceiling_log2_eqI [of 1 4] by simp

lemma ceiling_log2_5: "\<lceil>log 2 (5::real)\<rceil> = 3"
  using ceiling_log2_eqI [of 2 5] by simp

lemma example_filter_init: "VoxelFilter_init [[0, 0], [3, 4]] 1 = Inr example_filter"
  by (simp add: VoxelFilter_init_def is_2d_def ncols_def calculate_shift_def calculate_masks_def
      MAX_ADDRESS_LENGTH_def cumsum_def ceiling_log2_4 ceiling_log2_5 enumerate_eq_zip
      example_filter_def int64_def)

text \<open>
  Claim C7. The filter built from the points \<open>[[0,0],[3,4]]\<close> with edge length 1 has
  the corners \<open>(-0.5,-0.5)\<close> and \<open>(3.5,4.5)\<close> and the bit widths \<open>[2,3]\<close>. The
  source keeps the shifts of the axes after the first only (\<open>shifts = [2]\<close>); axis 0
  is never shifted, so the shifts of the two axes are \<open>[0,2]\<close>. The point \<open>(0,0)\<close>
  has the address 0, the point \<open>(3,4)\<close> the address 19, and the address 19 decodes
  to the point \<open>(3,4)\<close>.
\<close>

theorem addressing_example:
  "\<exists>vf. VoxelFilter_init [[0, 0], [3, 4]] 1 = Inr vf
      \<and> minimum_corner vf = [- 0.5, - 0.5] \<and> maximum_corner vf = [3.5, 4.5]
      \<and> widths vf = [2, 3] \<and> 0 # shifts vf = [0, 2]
      \<and> coordinate_to_address vf [[0, 0]] = Inr [0]
      \<and> coordinate_to_address vf [[3, 4]] = Inr [19]
      \<and> address_to_coordinate vf [19] = Inr [[3, 4]]"
  unfolding example_filter_init
  by (simp add: coordinate_to_address_def check_in_bounds_def is_2d_def ncols_def int64_def
      address_to_coordinate_def atleast_1d_dtype_def example_filter_def)

section \<open>Column minima and maxima\<close>

lemma is_2d_nth: "is_2d pts \<Longrightarrow> i < length pts \<Longrightarrow> length (pts ! i) = ncols pts"
  by (simp add: is_2d_def list_all_length)

lemma is_2d_Cons: "is_2d (r # rs) \<Longrightarrow> \<forall>x\<in>set rs. length x = length r"
  by (simp add: is_2d_def ncols_def list_all_iff)

lemma fold_min_length:
  "\<forall>x\<in>set rs. length x = length r \<Longrightarrow> length (fold (\<lambda>x acc. map2 min acc x) rs r) = length r"
  by (induction rs arbitrary: r) auto

lemma fold_max_length:
  "\<forall>x\<in>set rs. length x = length r \<Longrightarrow> length (fold (\<lambda>x acc. map2 max acc x) rs r) = length r"
  by (induction rs arbitrary: r) auto

lemma fold_min_le:
  fixes r :: "real list"
  shows "\<forall>x\<in>set rs. length x = length r \<Longrightarrow> k < length r \<Longrightarrow>
    fold (\<lambda>x acc. map2 min acc x) rs r ! k \<le> r ! k
    \<and> (\<forall>x\<in>set rs. fold (\<lambda>x acc. map2 min acc x) rs r ! k \<le> x ! k)"
proof (induction rs arbitrary: r)
  case Nil
  then show ?case by simp
next
  case (Cons a rs)
  have len: "\<forall>x\<in>set rs. length x = length (map2 min r a)" "k < length (map2 min r a)"
    using Cons.prems by auto
  have nth: "map2 min r a ! k = min (r ! k) (a ! k)"
    using Cons.prems by simp
  from Cons.IH [OF len] nth show ?case
    by (auto simp: min_def split: if_splits)
qed

lemma fold_max_ge:
  fixes r :: "real list"
  shows "\<forall>x\<in>set rs. length x = length r \<Longrightarrow> k < length r \<Longrightarrow>
    r ! k \<le> fold (\<lambda>x acc. map2 max acc x) rs r ! k
    \<and> (\<forall>x\<in>set rs. x ! k \<le> fold (\<lambda>x acc. map2 max acc x) rs r ! k)"
proof (induction rs arbitrary: r)
  case Nil
  then show ?case by simp
next
  case (Cons a rs)
  have len: "\<forall>x\<in>set rs. length x = length (map2 max r a)" "k < length (map2 max r a)"
    using Cons.prems by auto
  have nth: "map2 max r a ! k = max (r ! k) (a ! k)"
    using Cons.prems by simp
  from Cons.IH [OF len] nth show ?case
    by (auto simp: max_def split: if_splits)
qed

lemma amin0_Inr: "pts \<noteq> [] \<Longrightarrow> \<exists>lo. amin0 pts = Inr lo"
  by (cases pts) auto

lemma amax0_Inr: "pts \<noteq> [] \<Longrightarrow> \<exists>hi. amax0 pts = Inr hi"
  by (cases pts) auto

lemma amin0_length: "is_2d pts \<Longrightarrow> amin0 pts = Inr lo \<Longrightarrow> length lo = ncols pts"
  by (cases pts) (auto simp: ncols_def dest!: is_2d_Cons intro: fold_min_length)

lemma amax0_length: "is_2d pts \<Longrightarrow> amax0 pts = Inr hi \<Longrightarrow> length hi = ncols pts"
  by (cases pts) (auto simp: ncols_def dest!: is_2d_Cons intro: fold_max_length)

lemma amin0_le:
  assumes "is_2d pts" "amin0 pts = Inr lo" "i < length pts" "k < ncols pts"
  shows "lo ! k \<le> pts ! i ! k"
proof (cases pts)
  case Nil
  with assms show ?thesis by simp
next
  case (Cons r rs)
  have len: "\<forall>x\<in>set rs. length x = length r"
    using assms(1) Cons by (auto dest: is_2d_Cons)
  have k: "k < length r" using assms(4) Cons by (simp add: ncols_def)
  have lo: "lo = fold (\<lambda>x acc. map2 min acc x) rs r" using assms(2) Cons by simp
  show ?thesis
  proof (cases i)
    case 0
    then show ?thesis using fold_min_le [OF len k] lo Cons by simp
  next
    case (Suc j)
    then have "rs ! j \<in> set rs" using assms(3) Cons by simp
    then show ?thesis using fold_min_le [OF len k] lo Cons Suc by simp
  qed
qed

lemma amax0_ge:
  assumes "is_2d pts" "amax0 pts = Inr hi" "i < length pts" "k < ncols pts"
  shows "pts ! i ! k \<le> hi ! k"
proof (cases pts)
  case Nil
  with assms show ?thesis by simp
next
  case (Cons r rs)
  have len: "\<forall>x\<in>set rs. length x = length r"
    using assms(1) Cons by (auto dest: is_2d_Cons)
  have k: "k < length r" using assms(4) Cons by (simp add: ncols_def)
  have hi: "hi = fold (\<lambda>x acc. map2 max acc x) rs r" using assms(2) Cons by simp
  show ?thesis
  proof (cases i)
    case 0
    then show ?thesis using fold_max_ge [OF len k] hi Cons by simp
  next
    case (Suc j)
    then have "rs ! j \<in> set rs" using assms(3) Cons by simp
    then show ?thesis using fold_max_ge [OF len k] hi Cons Suc by simp
  qed
qed

text \<open>
  The masks of \<^verbatim>\<open>region_indices\<close> hold at an index exactly when the point meets every
  bound of the listed axes, provided the bounds that were skipped hold for all points.
\<close>

lemma region_masks_spec:
  assumes "is_2d pts"
    and "\<forall>(d, lo, hi)\<in>set ts. d < ncols pts"
    and "\<forall>i<length pts. \<forall>k<ncols pts. lowest ! k \<le> pts ! i ! k \<and> pts ! i ! k \<le> highest ! k"
  shows "\<exists>ms. region_masks pts lowest highest ts = Inr ms
     \<and> (\<forall>i<length pts. list_all (\<lambda>m. m ! i) ms
           \<longleftrightarrow> (\<forall>(d, lo, hi)\<in>set ts. lo \<le> pts ! i ! d \<and> pts ! i ! d \<le> hi))"
  using assms(2)
proof (induction ts)
  case Nil
  then show ?case by simp
next
  case (Cons t ts)
  obtain d lo hi where t: "t = (d, lo, hi)" by (cases t) auto
  from Cons.prems t have d: "d < ncols pts" by simp
  from Cons obtain ms where ms: "region_masks pts lowest highest ts = Inr ms"
    and eq: "\<forall>i<length pts. list_all (\<lambda>m. m ! i) ms
           \<longleftrightarrow> (\<forall>(d, lo, hi)\<in>set ts. lo \<le> pts ! i ! d \<and> pts ! i ! d \<le> hi)"
    by auto
  have bounds: "\<And>i. i < length pts \<Longrightarrow> lowest ! d \<le> pts ! i ! d \<and> pts ! i ! d \<le> highest ! d"
    using assms(3) d by simp
  show ?case
    unfolding t using d ms eq bounds
    by (auto simp: Let_def) (smt (verit))+
qed

section \<open>The region filter\<close>

lemma ball_enumerate_zip:
  "length low = n \<Longrightarrow> length high = n \<Longrightarrow>
   (\<forall>(d, lo, hi)\<in>set (enumerate 0 (zip low high)). P d lo hi) \<longleftrightarrow> (\<forall>k<n. P k (low ! k) (high ! k))"
  by (simp add: all_set_conv_all_nth nth_enumerate_eq)

text \<open>
  \<^verbatim>\<open>region_indices\<close> on an array with at least one row: the indices, in increasing
  order, of the points between the two sides on every axis. The comparisons that
  the loop skips hold for every point, so leaving them out changes nothing.
\<close>

lemma region_indices_spec:
  assumes ne: "pts \<noteq> []" and rect: "is_2d pts"
    and dims: "ncols pts = length low" "length high = length low"
  shows "region_indices pts low high =
     Inr (filter (\<lambda>i. \<forall>k<length low. low ! k \<le> pts ! i ! k \<and> pts ! i ! k \<le> high ! k)
            [0..<length pts])"
proof -
  obtain lowest where lowest: "amin0 pts = Inr lowest" using amin0_Inr [OF ne] by blast
  obtain highest where highest: "amax0 pts = Inr highest" using amax0_Inr [OF ne] by blast
  let ?ts = "enumerate 0 (zip low high)"
  have ts: "(\<forall>(d, lo, hi)\<in>set ?ts. P d lo hi) \<longleftrightarrow> (\<forall>k<length low. P k (low ! k) (high ! k))" for P
    using dims by (intro ball_enumerate_zip) auto
  have inrange: "\<forall>(d, lo, hi)\<in>set ?ts. d < ncols pts"
    unfolding ts using dims by auto
  have bounds: "\<forall>i<length pts. \<forall>k<ncols pts. lowest ! k \<le> pts ! i ! k \<and> pts ! i ! k \<le> highest ! k"
    using amin0_le [OF rect lowest] amax0_ge [OF rect highest] by blast
  obtain ms where ms: "region_masks pts lowest highest ?ts = Inr ms"
    and eq: "\<forall>i<length pts. list_all (\<lambda>m. m ! i) ms
           \<longleftrightarrow> (\<forall>(d, lo, hi)\<in>set ?ts. lo \<le> pts ! i ! d \<and> pts ! i ! d \<le> hi)"
    using region_masks_spec [OF rect inrange bounds] by blast
  have eq': "list_all (\<lambda>m. m ! i) ms
      \<longleftrightarrow> (\<forall>k<length low. low ! k \<le> pts ! i ! k \<and> pts ! i ! k \<le> high ! k)"
    if "i < length pts" for i
    using eq that unfolding ts by simp
  have filt: "filter (\<lambda>i. list_all (\<lambda>m. m ! i) ms) [0..<length pts]
      = filter (\<lambda>i. \<forall>k<length low. low ! k \<le> pts ! i ! k \<and> pts ! i ! k \<le> high ! k) [0..<length pts]"
    by (rule filter_cong) (auto simp: eq')
  have final: "filter (\<lambda>i. map (\<lambda>i. list_all (\<lambda>m. m ! i) ms) [0..<length pts] ! i) [0..<length pts]
      = filter (\<lambda>i. list_all (\<lambda>m. m ! i) ms) [0..<length pts]"
    by (rule filter_cong) auto
  show ?thesis
  proof (cases "ms = []")
    case True
    have "filter (\<lambda>i. list_all (\<lambda>m. m ! i) ms) [0..<length pts] = [0..<length pts]"
      using True by simp
    then show ?thesis
      using True lowest highest ms filt by (simp add: region_indices_def)
  next
    case False
    then show ?thesis
      using lowest highest ms filt final by (simp add: region_indices_def Let_def)
  qed
qed

lemma nested_regions_spec:
  assumes "qs \<noteq> []" and "ss \<noteq> []" and "is_2d qs" and "is_2d ss"
    and "ncols qs = length min_corner" and "ncols ss = length min_corner"
    and "length max_corner = length min_corner"
  shows "nested_regions qs ss radius min_corner max_corner =
     Inr (filter (\<lambda>i. \<forall>k<length min_corner.
                     min_corner ! k \<le> qs ! i ! k \<and> qs ! i ! k \<le> max_corner ! k)
            [0..<length qs],
          filter (\<lambda>i. \<forall>k<length min_corner.
                     min_corner ! k - radius \<le> ss ! i ! k \<and> ss ! i ! k \<le> max_corner ! k + radius)
            [0..<length ss])"
proof -
  have q: "region_indices qs min_corner max_corner =
     Inr (filter (\<lambda>i. \<forall>k<length min_corner.
                     min_corner ! k \<le> qs ! i ! k \<and> qs ! i ! k \<le> max_corner ! k) [0..<length qs])"
    using assms by (intro region_indices_spec) auto
  have s: "region_indices ss (map (\<lambda>c. c - radius) min_corner) (map (\<lambda>c. c + radius) max_corner) =
     Inr (filter (\<lambda>i. \<forall>k<length (map (\<lambda>c. c - radius) min_corner).
                     map (\<lambda>c. c - radius) min_corner ! k \<le> ss ! i ! k
                     \<and> ss ! i ! k \<le> map (\<lambda>c. c + radius) max_corner ! k) [0..<length ss])"
    using assms by (intro region_indices_spec) auto
  have s': "filter (\<lambda>i. \<forall>k<length (map (\<lambda>c. c - radius) min_corner).
                     map (\<lambda>c. c - radius) min_corner ! k \<le> ss ! i ! k
                     \<and> ss ! i ! k \<le> map (\<lambda>c. c + radius) max_corner ! k) [0..<length ss]
     = filter (\<lambda>i. \<forall>k<length min_corner.
                     min_corner ! k - radius \<le> ss ! i ! k \<and> ss ! i ! k \<le> max_corner ! k + radius)
            [0..<length ss]"
    using assms(7) by (intro filter_cong) auto
  show ?thesis
    unfolding nested_regions_def q s s' by simp
qed

text \<open>
  Claim C5, as stated for every query set, fails for an array without rows:
  \<^verbatim>\<open>region_indices\<close> starts with \<^verbatim>\<open>points.min(0)\<close>, which raises on an empty array,
  where the claim promises an empty index set.
\<close>

theorem nested_regions_empty_query_set:
  "nested_regions [] [[0, 0], [5, 5]] 2 [0, 0] [5, 5] =
     Inl (ValueError ''zero-size array to reduction operation minimum which has no identity'')"
  by (simp add: nested_regions_def region_indices_def)

text \<open>
  Claim C5, amended. For a query set and a search space with at least one point
  each, and a box of their dimensionality, \<^verbatim>\<open>nested_regions\<close> returns the indices
  \<open>i\<close> of the query points with \<open>min_corner[k] \<le> query_set[i][k] \<le> max_corner[k]\<close> on
  every axis \<open>k\<close>, and the indices of the search points with
  \<open>min_corner[k] - radius \<le> search_space[i][k] \<le> max_corner[k] + radius\<close> on every
  axis, both in increasing order. The result is stated without the skipping of
  comparisons, which therefore never changes it.
\<close>

theorem nested_regions_indices:
  assumes "qs \<noteq> []" and "ss \<noteq> []" and "is_2d qs" and "is_2d ss"
    and "ncols qs = length min_corner" and "ncols ss = length min_corner"
    and "length max_corner = length min_corner"
  shows "nested_regions qs ss radius min_corner max_corner =
     Inr (filter (\<lambda>i. \<forall>k<length min_corner.
                     min_corner ! k \<le> qs ! i ! k \<and> qs ! i ! k \<le> max_corner ! k)
            [0..<length qs],
          filter (\<lambda>i. \<forall>k<length min_corner.
                     min_corner ! k - radius \<le> ss ! i ! k \<and> ss ! i ! k \<le> max_corner ! k + radius)
            [0..<length ss])"
  using assms by (rule nested_regions_spec)

theorem nested_regions_indices_witness:
  "nested_regions [[0, 0], [5, 5], [10, 10]] [[0, 0], [5, 5], [10, 10], [- 3, - 3]] 2 [0, 0] [5, 5]
     = Inr ([0, 1], [0, 1])"
  using nested_regions_indices [of "[[0, 0], [5, 5], [10, 10]]"
      "[[0, 0], [5, 5], [10, 10], [- 3, - 3]]" "[0, 0]" "[5, 5]" 2]
  by (simp add: is_2d_def ncols_def All_less_Suc)

section \<open>Partitioning\<close>

lemma NestedOctree_init_Inr:
  assumes "NestedOctree_init qs ss radius = Inr node"
  shows "is_2d qs \<and> ncols qs = 3 \<and> 2 \<le> length qs \<and> is_2d ss \<and> ncols ss = 3 \<and> 2 \<le> length ss
     \<and> 0 < radius \<and> amax0 qs = Inr (octree_maximum_corner node)
     \<and> amin0 qs = Inr (octree_minimum_corner node)
     \<and> query_set node = qs \<and> search_space node = ss \<and> buffer_radius node = radius
     \<and> cubes node = []"
  using assms
  by (auto simp: NestedOctree_init_def validate_input_def split: if_splits sum.splits)

lemma partition_octree_leaf:
  assumes "nested_regions (query_set node) (search_space node) (buffer_radius node)
             (octree_minimum_corner node) (octree_maximum_corner node)
           = Inr (query_indices, search_indices)"
    and "int (length search_indices) \<le> max_population"
  shows "partition_octree node max_population minimum_factor =
     Inr (NestedOctree (query_set node) (search_space node) (buffer_radius node)
            (octree_maximum_corner node) (octree_minimum_corner node)
            (cubes node @ [Indices (query_indices, search_indices)]))"
  using assms by (simp add: partition_octree_def)

lemma partition_octree_over:
  assumes "nested_regions (query_set node) (search_space node) (buffer_radius node)
             (octree_minimum_corner node) (octree_maximum_corner node)
           = Inr (query_indices, search_indices)"
    and "int (length search_indices) > max_population"
    and "octree_maximum_corner node \<noteq> []" and "octree_minimum_corner node \<noteq> []"
  shows "partition_octree node max_population minimum_factor = Inr node"
proof -
  obtain x xs where "map2 (-) (octree_maximum_corner node) (octree_minimum_corner node) = x # xs"
    using assms(3,4)
    by (cases "octree_maximum_corner node"; cases "octree_minimum_corner node") auto
  then show ?thesis
    using assms(1,2) by (simp add: partition_octree_def)
qed

lemma partition_generator_cubes:
  "partition_generator node = concat (map cube_partitions (cubes node))"
  by (cases node) simp

text \<open>A node as constructed is partitioned without an error.\<close>

lemma partition_octree_total:
  assumes "NestedOctree_init qs ss radius = Inr node"
  shows "\<exists>node'. partition_octree node max_population minimum_factor = Inr node'"
proof -
  note init = NestedOctree_init_Inr [OF assms]
  have lmin: "length (octree_minimum_corner node) = 3"
    using init amin0_length [of qs "octree_minimum_corner node"] by simp
  have lmax: "length (octree_maximum_corner node) = 3"
    using init amax0_length [of qs "octree_maximum_corner node"] by simp
  have "qs \<noteq> []" "ss \<noteq> []" using init by auto
  then obtain qi si where li: "nested_regions (query_set node) (search_space node) (buffer_radius node)
             (octree_minimum_corner node) (octree_maximum_corner node) = Inr (qi, si)"
    using nested_regions_spec [of qs ss "octree_minimum_corner node" "octree_maximum_corner node" radius]
      init lmin lmax by simp
  show ?thesis
  proof (cases "int (length si) \<le> max_population")
    case True
    then show ?thesis using partition_octree_leaf [OF li] by blast
  next
    case False
    moreover have "octree_maximum_corner node \<noteq> []" "octree_minimum_corner node \<noteq> []"
      using lmin lmax by auto
    ultimately show ?thesis using partition_octree_over [OF li] by force
  qed
qed

text \<open>The bounding box of the query set holds every query point.\<close>

lemma own_region_all_queries:
  assumes "NestedOctree_init qs ss radius = Inr node"
    and "nested_regions (query_set node) (search_space node) (buffer_radius node)
             (octree_minimum_corner node) (octree_maximum_corner node) = Inr (qi, si)"
  shows "qi = [0..<length qs]"
proof -
  note init = NestedOctree_init_Inr [OF assms(1)]
  have lmin: "length (octree_minimum_corner node) = 3"
    using init amin0_length [of qs "octree_minimum_corner node"] by simp
  have lmax: "length (octree_maximum_corner node) = 3"
    using init amax0_length [of qs "octree_maximum_corner node"] by simp
  have ne: "qs \<noteq> []" "ss \<noteq> []" using init by auto
  have "qi = filter (\<lambda>i. \<forall>k<length (octree_minimum_corner node).
                     octree_minimum_corner node ! k \<le> qs ! i ! k
                     \<and> qs ! i ! k \<le> octree_maximum_corner node ! k) [0..<length qs]"
    using nested_regions_spec [of qs ss "octree_minimum_corner node" "octree_maximum_corner node" radius]
      init lmin lmax ne assms(2) by simp
  also have "\<dots> = [0..<length qs]"
    using init lmin amin0_le [of qs "octree_minimum_corner node"]
      amax0_ge [of qs "octree_maximum_corner node"]
    by (intro filter_True) auto
  finally show ?thesis .
qed

text \<open>
  On a node that holds no cubes yet, a population within the cap makes the pair of
  the region filter the only cube, and above the cap nothing is appended.
\<close>

lemma partition_leaf_fresh:
  assumes "cubes node = []"
    and "nested_regions (query_set node) (search_space node) (buffer_radius node)
             (octree_minimum_corner node) (octree_maximum_corner node)
           = Inr (query_indices, search_indices)"
    and "int (length search_indices) \<le> max_population"
  shows "\<exists>node'. partition_octree node max_population minimum_factor = Inr node'
     \<and> cubes node' = [Indices (query_indices, search_indices)]
     \<and> partition_generator node' = [(query_indices, search_indices)]"
  using assms partition_octree_leaf [OF assms(2,3)] by simp

lemma population_bound_fresh:
  assumes "cubes node = []"
    and "partition_octree node max_population minimum_factor = Inr node'"
  shows "\<forall>(query_indices, search_indices)\<in>set (partition_generator node').
           int (length search_indices) \<le> max_population"
  using assms
  by (auto simp: partition_octree_def partition_generator_cubes Let_def
      split: sum.splits if_splits list.splits)

text \<open>
  Claim C3. For a node as \<^verbatim>\<open>__init__\<close> constructs it, when the region filter over
  the node's own region yields \<open>(query_indices, search_indices)\<close> with at most
  \<open>max_population\<close> search indices, \<^verbatim>\<open>partition\<close> returns without an error, the
  node's only cube is that pair, and \<^verbatim>\<open>partition_generator\<close> yields exactly that one
  pair.
\<close>

theorem partition_leaf:
  assumes "NestedOctree_init qs ss radius = Inr node"
    and "nested_regions (query_set node) (search_space node) (buffer_radius node)
             (octree_minimum_corner node) (octree_maximum_corner node)
           = Inr (query_indices, search_indices)"
    and "int (length search_indices) \<le> max_population"
  shows "\<exists>node'. partition_octree node max_population minimum_factor = Inr node'
     \<and> cubes node' = [Indices (query_indices, search_indices)]
     \<and> partition_generator node' = [(query_indices, search_indices)]"
  using NestedOctree_init_Inr [OF assms(1)] assms(2,3) by (intro partition_leaf_fresh) auto

theorem partition_leaf_witness:
  "NestedOctree_init [[0, 0, 0], [1, 1, 1]] [[0, 0, 0], [1, 1, 1], [5, 5, 5]] 1
     = Inr (NestedOctree [[0, 0, 0], [1, 1, 1]] [[0, 0, 0], [1, 1, 1], [5, 5, 5]] 1
              [1, 1, 1] [0, 0, 0] [])
   \<and> (\<exists>node'. partition_octree
         (NestedOctree [[0, 0, 0], [1, 1, 1]] [[0, 0, 0], [1, 1, 1], [5, 5, 5]] 1
              [1, 1, 1] [0, 0, 0] []) 2 3 = Inr node'
     \<and> cubes node' = [Indices ([0, 1], [0, 1])]
     \<and> partition_generator node' = [([0, 1], [0, 1])])"
  using partition_leaf [of "[[0, 0, 0], [1, 1, 1]]" "[[0, 0, 0], [1, 1, 1], [5, 5, 5]]" 1
      "NestedOctree [[0, 0, 0], [1, 1, 1]] [[0, 0, 0], [1, 1, 1], [5, 5, 5]] 1
              [1, 1, 1] [0, 0, 0] []" "[0, 1]" "[0, 1]" 2 3]
  by (simp add: NestedOctree_init_def validate_input_def is_2d_def ncols_def
      nested_regions_def region_indices_def enumerate_eq_zip Let_def)

text \<open>
  Claim C4. For a node as \<^verbatim>\<open>__init__\<close> constructs it, \<^verbatim>\<open>partition(max_population)\<close>
  returns without an error, and every pair that \<^verbatim>\<open>partition_generator\<close> then yields
  has at most \<open>max_population\<close> search indices.
\<close>

theorem population_bound:
  assumes "NestedOctree_init qs ss radius = Inr node"
  shows "\<exists>node'. partition_octree node max_population minimum_factor = Inr node'
     \<and> (\<forall>(query_indices, search_indices)\<in>set (partition_generator node').
           int (length search_indices) \<le> max_population)"
proof -
  obtain node' where "partition_octree node max_population minimum_factor = Inr node'"
    using partition_octree_total [OF assms] by blast
  moreover have "cubes node = []"
    using NestedOctree_init_Inr [OF assms] by simp
  ultimately show ?thesis
    using population_bound_fresh by blast
qed

theorem population_bound_witness:
  "NestedOctree_init [[0, 0, 0], [1, 1, 1]] [[0, 0, 0], [1, 1, 1], [5, 5, 5]] 1
     = Inr (NestedOctree [[0, 0, 0], [1, 1, 1]] [[0, 0, 0], [1, 1, 1], [5, 5, 5]] 1
              [1, 1, 1] [0, 0, 0] [])
   \<and> partition_octree
         (NestedOctree [[0, 0, 0], [1, 1, 1]] [[0, 0, 0], [1, 1, 1], [5, 5, 5]] 1
              [1, 1, 1] [0, 0, 0] []) 2 3
     = Inr (NestedOctree [[0, 0, 0], [1, 1, 1]] [[0, 0, 0], [1, 1, 1], [5, 5, 5]] 1
              [1, 1, 1] [0, 0, 0] [Indices ([0, 1], [0, 1])])
   \<and> partition_generator (NestedOctree [[0, 0, 0], [1, 1, 1]] [[0, 0, 0], [1, 1, 1], [5, 5, 5]] 1
              [1, 1, 1] [0, 0, 0] [Indices ([0, 1], [0, 1])]) = [([0, 1], [0, 1])]
   \<and> int (length [0::nat, 1]) \<le> 2"
  using population_bound [of "[[0, 0, 0], [1, 1, 1]]" "[[0, 0, 0], [1, 1, 1], [5, 5, 5]]" 1
      "NestedOctree [[0, 0, 0], [1, 1, 1]] [[0, 0, 0], [1, 1, 1], [5, 5, 5]] 1
              [1, 1, 1] [0, 0, 0] []" 2 3]
  by (simp add: NestedOctree_init_def validate_input_def partition_octree_def is_2d_def ncols_def
      nested_regions_def region_indices_def enumerate_eq_zip Let_def)

text \<open>
  Claim C1 at a failing input. Two query points, two search points within the
  buffered bounding box, and \<open>max_population = 1\<close>: the population 2 is above the
  cap, \<^verbatim>\<open>partition\<close> takes the branch that ends in \<^verbatim>\<open>pass\<close>, and
  \<^verbatim>\<open>partition_generator\<close> yields nothing, so no query index is covered.
\<close>

theorem partition_yields_nothing:
  "\<exists>node node'. NestedOctree_init [[0, 0, 0], [1, 1, 1]] [[0, 0, 0], [1, 1, 1]] 1 = Inr node
     \<and> partition_octree node 1 3 = Inr node'
     \<and> partition_generator node' = []"
  by (simp add: NestedOctree_init_def validate_input_def is_2d_def ncols_def partition_octree_def
      nested_regions_def region_indices_def enumerate_eq_zip Let_def)

text \<open>
  Claim C2 at a failing input. The two query points lie in opposite octants of a
  region of edge 4, the population 2 is above \<open>max_population = 1\<close>, and half the
  edge is above \<open>minimum_factor * buffer_radius = 1.5\<close>; \<^verbatim>\<open>partition\<close> leaves the
  node without any cube, where the claim has two octree children.
\<close>

theorem partition_creates_no_child:
  "\<exists>node node'. NestedOctree_init [[0, 0, 0], [4, 4, 4]] [[0, 0, 0], [4, 4, 4]] 0.5 = Inr node
     \<and> nested_regions (query_set node) (search_space node) (buffer_radius node)
          (octree_minimum_corner node) (octree_maximum_corner node) = Inr ([0, 1], [0, 1])
     \<and> partition_octree node 1 3 = Inr node'
     \<and> cubes node' = []"
  by (simp add: NestedOctree_init_def validate_input_def is_2d_def ncols_def partition_octree_def
      nested_regions_def region_indices_def enumerate_eq_zip Let_def)

section \<open>A constructed filter\<close>

lemma list2: "length xs = 2 \<Longrightarrow> \<exists>a b. xs = [a, b]"
  by (cases xs; cases "tl xs") auto

lemma list3: "length xs = 3 \<Longrightarrow> \<exists>a b c. xs = [a, b, c]"
proof -
  assume "length xs = 3"
  then have "length xs = Suc (Suc (Suc 0))" by simp
  then show ?thesis by (auto simp: length_Suc_conv)
qed

text \<open>What a filter holds when \<^verbatim>\<open>__init__\<close> returns one.\<close>

lemma VoxelFilter_init_Inr:
  assumes "VoxelFilter_init points edge = Inr vf"
  obtains lowest highest where
    "is_2d points" "ncols points = 2 \<or> ncols points = 3" "2 \<le> length points"
    "amin0 points = Inr lowest" "amax0 points = Inr highest"
    "minimum_corner vf = map (\<lambda>x. x - edge / 2) lowest"
    "maximum_corner vf = map (\<lambda>x. x + edge / 2) highest"
    "edge_length vf = edge"
    "widths vf = map (\<lambda>s. \<lceil>log 2 (s / edge)\<rceil>) (map2 (-) (maximum_corner vf) (minimum_corner vf))"
    "shifts vf = butlast (cumsum (widths vf))"
    "sum_list (widths vf) \<le> 64"
    "\<forall>w\<in>set (widths vf). 0 < w"
    "shift_masks (enumerate 0 (shifts vf)) (map (\<lambda>w. 2 ^ nat w - 1) (widths vf)) = Inr (masks vf)"
  using assms
  by (auto simp: VoxelFilter_init_def calculate_shift_def calculate_masks_def Let_def
      MAX_ADDRESS_LENGTH_def list_ex_iff not_le
      split: if_splits sum.splits)

text \<open>
  The constructor accepts two or three columns only, so a filter has one of two
  shapes; both are written out, with the masks after the loop of
  \<^verbatim>\<open>_calculate_masks\<close>.
\<close>

lemma VoxelFilter_init_2d:
  assumes "VoxelFilter_init points edge = Inr vf" and "ncols points = 2"
  obtains l0 l1 h0 h1 w0 w1 where
    "amin0 points = Inr [l0, l1]" "amax0 points = Inr [h0, h1]"
    "w0 = \<lceil>log 2 ((h0 + edge / 2 - (l0 - edge / 2)) / edge)\<rceil>"
    "w1 = \<lceil>log 2 ((h1 + edge / 2 - (l1 - edge / 2)) / edge)\<rceil>"
    "0 < w0" "0 < w1" "w0 + w1 \<le> 64"
    "vf = \<lparr>minimum_corner = [l0 - edge / 2, l1 - edge / 2],
           maximum_corner = [h0 + edge / 2, h1 + edge / 2], edge_length = edge,
           shifts = [w0], widths = [w0, w1],
           masks = [2 ^ nat w0 - 1, int64 (push_bit (nat w0) (2 ^ nat w1 - 1))]\<rparr>"
proof -
  from assms(1) obtain lowest highest where *:
    "is_2d points" "amin0 points = Inr lowest" "amax0 points = Inr highest"
    by (rule VoxelFilter_init_Inr)
  have "length lowest = 2" "length highest = 2"
    using * assms(2) amin0_length amax0_length by auto
  then obtain l0 l1 h0 h1 where lh: "lowest = [l0, l1]" "highest = [h0, h1]"
    using list2 by blast
  show ?thesis
    using assms(1) * lh
    by (intro that [of l0 l1 h0 h1])
      (auto simp: VoxelFilter_init_def calculate_shift_def calculate_masks_def Let_def
        MAX_ADDRESS_LENGTH_def cumsum_def enumerate_eq_zip not_le
        split: if_splits)
qed

lemma VoxelFilter_init_3d:
  assumes "VoxelFilter_init points edge = Inr vf" and "ncols points = 3"
  obtains l0 l1 l2 h0 h1 h2 w0 w1 w2 where
    "amin0 points = Inr [l0, l1, l2]" "amax0 points = Inr [h0, h1, h2]"
    "w0 = \<lceil>log 2 ((h0 + edge / 2 - (l0 - edge / 2)) / edge)\<rceil>"
    "w1 = \<lceil>log 2 ((h1 + edge / 2 - (l1 - edge / 2)) / edge)\<rceil>"
    "w2 = \<lceil>log 2 ((h2 + edge / 2 - (l2 - edge / 2)) / edge)\<rceil>"
    "0 < w0" "0 < w1" "0 < w2" "w0 + w1 + w2 \<le> 64"
    "vf = \<lparr>minimum_corner = [l0 - edge / 2, l1 - edge / 2, l2 - edge / 2],
           maximum_corner = [h0 + edge / 2, h1 + edge / 2, h2 + edge / 2], edge_length = edge,
           shifts = [w0, w0 + w1], widths = [w0, w1, w2],
           masks = [2 ^ nat w0 - 1, int64 (push_bit (nat w0) (2 ^ nat w1 - 1)),
                    int64 (push_bit (nat (w0 + w1)) (2 ^ nat w2 - 1))]\<rparr>"
proof -
  from assms(1) obtain lowest highest where *:
    "is_2d points" "amin0 points = Inr lowest" "amax0 points = Inr highest"
    by (rule VoxelFilter_init_Inr)
  have "length lowest = 3" "length highest = 3"
    using * assms(2) amin0_length amax0_length by auto
  then obtain l0 l1 l2 h0 h1 h2 where lh: "lowest = [l0, l1, l2]" "highest = [h0, h1, h2]"
    using list3 by blast
  show ?thesis
    using assms(1) * lh
    by (intro that [of l0 l1 l2 h0 h1 h2])
      (auto simp: VoxelFilter_init_def calculate_shift_def calculate_masks_def Let_def
        MAX_ADDRESS_LENGTH_def cumsum_def enumerate_eq_zip not_le
        split: if_splits)
qed

section \<open>Decoding\<close>

lemma map_upt_nth: "map (\<lambda>i. f (xs ! i)) [0..<length xs] = map f xs"
  by (rule nth_equalityI) auto

lemma atleast_1d_int64:
  "addresses \<noteq> [] \<Longrightarrow> \<forall>a\<in>set addresses. - (2 ^ 63) \<le> a \<and> a < 2 ^ 63 \<Longrightarrow>
   atleast_1d_dtype addresses = Int64"
  by (simp add: atleast_1d_dtype_def list_all_iff)

lemma decode_2d:
  fixes edge :: real
  assumes "atleast_1d_dtype addresses = Int64"
  shows "address_to_coordinate \<lparr>minimum_corner = [m0, m1], maximum_corner = mx, edge_length = edge,
           shifts = [s1], widths = ws, masks = [k0, k1]\<rparr> addresses
    = Inr (map (\<lambda>a. [of_int (a AND k0) * edge + m0 + edge * 0.5,
                     of_int (drop_bit (nat s1) (a AND k1)) * edge + m1 + edge * 0.5]) addresses)"
proof -
  have "address_to_coordinate \<lparr>minimum_corner = [m0, m1], maximum_corner = mx, edge_length = edge,
           shifts = [s1], widths = ws, masks = [k0, k1]\<rparr> addresses
    = Inr (map (\<lambda>i. (\<lambda>a. [of_int (a AND k0) * edge + m0 + edge * 0.5,
                     of_int (drop_bit (nat s1) (a AND k1)) * edge + m1 + edge * 0.5]) (addresses ! i))
             [0..<length addresses])"
    using assms by (simp add: address_to_coordinate_def enumerate_eq_zip cong: map_cong)
  then show ?thesis
    using map_upt_nth [of "\<lambda>a. [of_int (a AND k0) * edge + m0 + edge * 0.5,
                     of_int (drop_bit (nat s1) (a AND k1)) * edge + m1 + edge * 0.5]" addresses]
    by simp
qed

lemma decode_3d:
  fixes edge :: real
  assumes "atleast_1d_dtype addresses = Int64"
  shows "address_to_coordinate \<lparr>minimum_corner = [m0, m1, m2], maximum_corner = mx, edge_length = edge,
           shifts = [s1, s2], widths = ws, masks = [k0, k1, k2]\<rparr> addresses
    = Inr (map (\<lambda>a. [of_int (a AND k0) * edge + m0 + edge * 0.5,
                     of_int (drop_bit (nat s1) (a AND k1)) * edge + m1 + edge * 0.5,
                     of_int (drop_bit (nat s2) (a AND k2)) * edge + m2 + edge * 0.5]) addresses)"
proof -
  have "address_to_coordinate \<lparr>minimum_corner = [m0, m1, m2], maximum_corner = mx, edge_length = edge,
           shifts = [s1, s2], widths = ws, masks = [k0, k1, k2]\<rparr> addresses
    = Inr (map (\<lambda>i. (\<lambda>a. [of_int (a AND k0) * edge + m0 + edge * 0.5,
                     of_int (drop_bit (nat s1) (a AND k1)) * edge + m1 + edge * 0.5,
                     of_int (drop_bit (nat s2) (a AND k2)) * edge + m2 + edge * 0.5]) (addresses ! i))
             [0..<length addresses])"
    using assms by (simp add: address_to_coordinate_def enumerate_eq_zip cong: map_cong)
  then show ?thesis
    using map_upt_nth [of "\<lambda>a. [of_int (a AND k0) * edge + m0 + edge * 0.5,
                     of_int (drop_bit (nat s1) (a AND k1)) * edge + m1 + edge * 0.5,
                     of_int (drop_bit (nat s2) (a AND k2)) * edge + m2 + edge * 0.5]" addresses]
    by simp
qed

text \<open>
  An array that is not \<^verbatim>\<open>int64\<close> is refused by \<^verbatim>\<open>&\<close> as soon as the filter has a
  second mask, which every constructed filter has.
\<close>

lemma decode_uint64:
  assumes "atleast_1d_dtype addresses = UInt64" and "1 < length (masks vf)"
  shows "address_to_coordinate vf addresses
     = Inl (TypeError ''ufunc bitwise_and not supported for the input types'')"
  using assms by (simp add: address_to_coordinate_def)

section \<open>Encoding\<close>

lemma encode_length:
  "coordinate_to_address vf [p] = Inr as \<Longrightarrow> length p = length (shifts vf) + 1"
  by (auto simp: coordinate_to_address_def check_in_bounds_def ncols_def
      split: if_splits sum.splits)

lemma encode_2d:
  "coordinate_to_address \<lparr>minimum_corner = [m0, m1], maximum_corner = [M0, M1], edge_length = edge,
           shifts = [s1], widths = ws, masks = ks\<rparr> [[x, y]]
   = (if x < m0 \<or> y < m1 \<or> M0 < x \<or> M1 < y
      then Inl (ValueError ''some points fall outside filter bounding region'')
      else Inr [int64 (\<lfloor>(x - m0) / edge\<rfloor> + int64 (push_bit (nat s1) \<lfloor>(y - m1) / edge\<rfloor>))])"
  by (simp add: coordinate_to_address_def check_in_bounds_def is_2d_def ncols_def)

lemma encode_3d:
  "coordinate_to_address \<lparr>minimum_corner = [m0, m1, m2], maximum_corner = [M0, M1, M2],
           edge_length = edge, shifts = [s1, s2], widths = ws, masks = ks\<rparr> [[x, y, z]]
   = (if x < m0 \<or> y < m1 \<or> z < m2 \<or> M0 < x \<or> M1 < y \<or> M2 < z
      then Inl (ValueError ''some points fall outside filter bounding region'')
      else Inr [int64 (\<lfloor>(x - m0) / edge\<rfloor> + (int64 (push_bit (nat s1) \<lfloor>(y - m1) / edge\<rfloor>)
                   + int64 (push_bit (nat s2) \<lfloor>(z - m2) / edge\<rfloor>)))])"
  by (simp add: coordinate_to_address_def check_in_bounds_def is_2d_def ncols_def)

text \<open>
  \<^verbatim>\<open>coordinate_to_address\<close> on a constructed filter refuses every point of the
  filter's dimensionality with a coordinate beyond a corner.
\<close>

lemma encode_rejects_outside:
  assumes init: "VoxelFilter_init points edge = Inr vf"
    and len: "length p = length (masks vf)"
    and out: "\<exists>k<length p. p ! k < minimum_corner vf ! k \<or> maximum_corner vf ! k < p ! k"
  shows "coordinate_to_address vf [p]
     = Inl (ValueError ''some points fall outside filter bounding region'')"
proof -
  from init have "ncols points = 2 \<or> ncols points = 3"
    by (rule VoxelFilter_init_Inr)
  then show ?thesis
  proof
    assume "ncols points = 2"
    with init obtain l0 l1 h0 h1 w0 w1 where
      vf: "vf = \<lparr>minimum_corner = [l0 - edge / 2, l1 - edge / 2],
           maximum_corner = [h0 + edge / 2, h1 + edge / 2], edge_length = edge,
           shifts = [w0], widths = [w0, w1],
           masks = [2 ^ nat w0 - 1, int64 (push_bit (nat w0) (2 ^ nat w1 - 1))]\<rparr>"
      by (rule VoxelFilter_init_2d)
    have "length p = 2" using len vf by simp
    then obtain x y where p: "p = [x, y]" using list2 by blast
    from out have "x < l0 - edge / 2 \<or> y < l1 - edge / 2 \<or> h0 + edge / 2 < x \<or> h1 + edge / 2 < y"
      unfolding p vf by (auto simp: less_Suc_eq)
    then show ?thesis
      unfolding p vf encode_2d by simp
  next
    assume "ncols points = 3"
    with init obtain l0 l1 l2 h0 h1 h2 w0 w1 w2 where
      vf: "vf = \<lparr>minimum_corner = [l0 - edge / 2, l1 - edge / 2, l2 - edge / 2],
           maximum_corner = [h0 + edge / 2, h1 + edge / 2, h2 + edge / 2], edge_length = edge,
           shifts = [w0, w0 + w1], widths = [w0, w1, w2],
           masks = [2 ^ nat w0 - 1, int64 (push_bit (nat w0) (2 ^ nat w1 - 1)),
                    int64 (push_bit (nat (w0 + w1)) (2 ^ nat w2 - 1))]\<rparr>"
      by (rule VoxelFilter_init_3d)
    have "length p = 3" using len vf by simp
    then obtain x y z where p: "p = [x, y, z]" using list3 by blast
    from out have "x < l0 - edge / 2 \<or> y < l1 - edge / 2 \<or> z < l2 - edge / 2
        \<or> h0 + edge / 2 < x \<or> h1 + edge / 2 < y \<or> h2 + edge / 2 < z"
      unfolding p vf by (auto simp: less_Suc_eq)
    then show ?thesis
      unfolding p vf encode_3d by simp
  qed
qed

lemma decode_constructed:
  assumes init: "VoxelFilter_init points edge = Inr vf"
    and dt: "atleast_1d_dtype addresses = Int64"
  shows "address_to_coordinate vf addresses =
     Inr (map (\<lambda>a. map (\<lambda>k. of_int (drop_bit (nat ((0 # shifts vf) ! k)) (a AND masks vf ! k))
                             * edge_length vf + minimum_corner vf ! k + edge_length vf * 0.5)
                     [0..<length (masks vf)]) addresses)"
proof -
  from init have "ncols points = 2 \<or> ncols points = 3"
    by (rule VoxelFilter_init_Inr)
  then show ?thesis
  proof
    assume "ncols points = 2"
    with init obtain l0 l1 h0 h1 w0 w1 where
      vf: "vf = \<lparr>minimum_corner = [l0 - edge / 2, l1 - edge / 2],
           maximum_corner = [h0 + edge / 2, h1 + edge / 2], edge_length = edge,
           shifts = [w0], widths = [w0, w1],
           masks = [2 ^ nat w0 - 1, int64 (push_bit (nat w0) (2 ^ nat w1 - 1))]\<rparr>"
      by (rule VoxelFilter_init_2d)
    have upt: "[0..<2] = [0, Suc 0]" by (simp add: upt_rec)
    show ?thesis
      unfolding vf decode_2d [OF dt] by (simp add: upt)
  next
    assume "ncols points = 3"
    with init obtain l0 l1 l2 h0 h1 h2 w0 w1 w2 where
      vf: "vf = \<lparr>minimum_corner = [l0 - edge / 2, l1 - edge / 2, l2 - edge / 2],
           maximum_corner = [h0 + edge / 2, h1 + edge / 2, h2 + edge / 2], edge_length = edge,
           shifts = [w0, w0 + w1], widths = [w0, w1, w2],
           masks = [2 ^ nat w0 - 1, int64 (push_bit (nat w0) (2 ^ nat w1 - 1)),
                    int64 (push_bit (nat (w0 + w1)) (2 ^ nat w2 - 1))]\<rparr>"
      by (rule VoxelFilter_init_3d)
    have upt: "[0..<3] = [0, Suc 0, Suc (Suc 0)]" by (simp add: upt_rec)
    show ?thesis
      unfolding vf decode_3d [OF dt] by (simp add: upt)
  qed
qed

lemma masks_length:
  assumes "VoxelFilter_init points edge = Inr vf"
  shows "length (masks vf) = ncols points" and "1 < length (masks vf)"
proof -
  from assms have "ncols points = 2 \<or> ncols points = 3"
    by (rule VoxelFilter_init_Inr)
  then have "length (masks vf) = ncols points \<and> 1 < length (masks vf)"
  proof
    assume d: "ncols points = 2"
    with assms obtain l0 l1 h0 h1 w0 w1 where
      vf: "vf = \<lparr>minimum_corner = [l0 - edge / 2, l1 - edge / 2],
           maximum_corner = [h0 + edge / 2, h1 + edge / 2], edge_length = edge,
           shifts = [w0], widths = [w0, w1],
           masks = [2 ^ nat w0 - 1, int64 (push_bit (nat w0) (2 ^ nat w1 - 1))]\<rparr>"
      by (rule VoxelFilter_init_2d)
    show ?thesis unfolding vf d by simp
  next
    assume d: "ncols points = 3"
    with assms obtain l0 l1 l2 h0 h1 h2 w0 w1 w2 where
      vf: "vf = \<lparr>minimum_corner = [l0 - edge / 2, l1 - edge / 2, l2 - edge / 2],
           maximum_corner = [h0 + edge / 2, h1 + edge / 2, h2 + edge / 2], edge_length = edge,
           shifts = [w0, w0 + w1], widths = [w0, w1, w2],
           masks = [2 ^ nat w0 - 1, int64 (push_bit (nat w0) (2 ^ nat w1 - 1)),
                    int64 (push_bit (nat (w0 + w1)) (2 ^ nat w2 - 1))]\<rparr>"
      by (rule VoxelFilter_init_3d)
    show ?thesis unfolding vf d by simp
  qed
  then show "length (masks vf) = ncols points" and "1 < length (masks vf)" by simp_all
qed

section \<open>Bit fields\<close>

lemma drop_and: "drop_bit n ((x::int) AND push_bit n k) = drop_bit n x AND k"
  by (rule bit_eqI) (auto simp add: bit_simps)

lemma and_mask_low:
  fixes g :: int
  assumes "0 \<le> g" "g < 2 ^ n"
  shows "(g + push_bit n r) AND (2 ^ n - 1) = g"
proof -
  have "(g + push_bit n r) AND (2 ^ n - 1) = take_bit n (g + push_bit n r)"
    by (simp add: take_bit_eq_mask mask_eq_exp_minus_1)
  also have "\<dots> = (g + r * 2 ^ n) mod 2 ^ n"
    by (simp add: take_bit_eq_mod push_bit_eq_mult)
  also have "\<dots> = g" using assms by simp
  finally show ?thesis .
qed

lemma drop_low:
  fixes g :: int
  assumes "0 \<le> g" "g < 2 ^ n"
  shows "drop_bit n (g + push_bit n r) = r"
  using assms by (simp add: drop_bit_eq_div push_bit_eq_mult)

lemma and_mask_id:
  fixes g :: int
  assumes "0 \<le> g" "g < 2 ^ n"
  shows "g AND (2 ^ n - 1) = g"
  using and_mask_low [OF assms, of 0] by simp

lemma int64_id: "0 \<le> x \<Longrightarrow> x < 2 ^ 63 \<Longrightarrow> int64 x = x"
  by (simp add: int64_def)

lemma field_bound:
  fixes g0 g1 :: int
  assumes "0 \<le> g0" "g0 < 2 ^ n0" "0 \<le> g1" "g1 < 2 ^ n1"
  shows "0 \<le> g0 + push_bit n0 g1" and "g0 + push_bit n0 g1 < 2 ^ (n0 + n1)"
    and "0 \<le> push_bit n0 g1" and "push_bit n0 g1 < 2 ^ (n0 + n1)"
proof -
  have "(g1 + 1) * 2 ^ n0 \<le> 2 ^ n1 * (2 ^ n0 :: int)"
    using assms(4) by (intro mult_right_mono) auto
  then have *: "g1 * 2 ^ n0 + 2 ^ n0 \<le> (2 ^ (n0 + n1) :: int)"
    by (simp add: algebra_simps power_add)
  have **: "0 \<le> g1 * 2 ^ n0" using assms(3) by simp
  have pos: "(0::int) < 2 ^ n0" by simp
  show "0 \<le> g0 + push_bit n0 g1" using assms(1) ** by (simp add: push_bit_eq_mult)
  show "g0 + push_bit n0 g1 < 2 ^ (n0 + n1)" using assms(2) * by (simp add: push_bit_eq_mult)
  show "0 \<le> push_bit n0 g1" using ** by (simp add: push_bit_eq_mult)
  show "push_bit n0 g1 < 2 ^ (n0 + n1)" using * pos unfolding push_bit_eq_mult by linarith
qed

lemma below_2_63: "(x::int) < 2 ^ n \<Longrightarrow> n \<le> 63 \<Longrightarrow> x < 2 ^ 63"
proof -
  assume "x < 2 ^ n" "n \<le> 63"
  moreover from \<open>n \<le> 63\<close> have "(2::int) ^ n \<le> 2 ^ 63"
    by (intro power_increasing) auto
  ultimately show ?thesis by linarith
qed

lemma floor_cell_center:
  fixes e :: real
  assumes "0 < e"
  shows "\<lfloor>(of_int g * e + e / 2) / e\<rfloor> = g"
proof -
  have "(of_int g * e + e / 2) / e = of_int g + 1 / 2"
    using assms by (simp add: field_simps)
  then show ?thesis by simp
qed

lemma mask_int64_id:
  assumes "n + m \<le> 63"
  shows "int64 (push_bit n (2 ^ m - 1)) = push_bit n (2 ^ m - 1)"
proof -
  have g: "(0::int) \<le> 0" "(0::int) < 2 ^ n" "(0::int) \<le> 2 ^ m - 1" "(2::int) ^ m - 1 < 2 ^ m"
    by simp_all
  note fb = field_bound [OF g]
  show ?thesis
    using fb(3) below_2_63 [OF fb(4) assms] by (rule int64_id)
qed

section \<open>The round trip\<close>

text \<open>
  Decoding the address of a point whose grid coordinates fit their bit fields gives
  the center of the cell of the point, when the widths sum to at most 63.
\<close>

lemma cell_center_2d:
  fixes e :: real
  assumes e: "0 < e" and w: "0 < w0" "0 < w1" "w0 + w1 \<le> 63"
    and vf: "vf = \<lparr>minimum_corner = [m0, m1], maximum_corner = [M0, M1], edge_length = e,
           shifts = [w0], widths = [w0, w1],
           masks = [2 ^ nat w0 - 1, push_bit (nat w0) (2 ^ nat w1 - 1)]\<rparr>"
    and enc: "coordinate_to_address vf [[x, y]] = Inr [a]"
    and f: "\<lfloor>(x - m0) / e\<rfloor> < 2 ^ nat w0" "\<lfloor>(y - m1) / e\<rfloor> < 2 ^ nat w1"
  shows "address_to_coordinate vf [a]
     = Inr [[of_int \<lfloor>(x - m0) / e\<rfloor> * e + m0 + e * 0.5,
             of_int \<lfloor>(y - m1) / e\<rfloor> * e + m1 + e * 0.5]]"
proof -
  define g0 g1 where "g0 = \<lfloor>(x - m0) / e\<rfloor>" and "g1 = \<lfloor>(y - m1) / e\<rfloor>"
  define n0 n1 where "n0 = nat w0" and "n1 = nat w1"
  have n: "n0 + n1 \<le> 63" using w by (simp add: n0_def n1_def)
  from enc have inb: "m0 \<le> x" "m1 \<le> y"
    and a: "a = int64 (g0 + int64 (push_bit n0 g1))"
    unfolding vf encode_2d g0_def g1_def n0_def n1_def by (auto split: if_splits)
  have g: "0 \<le> g0" "g0 < 2 ^ n0" "0 \<le> g1" "g1 < 2 ^ n1"
    using f e inb by (simp_all add: g0_def g1_def n0_def n1_def)
  note fb = field_bound [OF g]
  have "int64 (push_bit n0 g1) = push_bit n0 g1"
    using fb(3) below_2_63 [OF fb(4) n] by (rule int64_id)
  moreover have "int64 (g0 + push_bit n0 g1) = g0 + push_bit n0 g1"
    using fb(1) below_2_63 [OF fb(2) n] by (rule int64_id)
  ultimately have a': "a = g0 + push_bit n0 g1" using a by simp
  have "0 \<le> a" "a < 2 ^ 63"
    unfolding a' using fb(1) below_2_63 [OF fb(2) n] by simp_all
  then have dt: "atleast_1d_dtype [a] = Int64"
    by (intro atleast_1d_int64) auto
  have d0: "a AND (2 ^ n0 - 1) = g0"
    unfolding a' using g by (intro and_mask_low)
  have d1: "drop_bit n0 (a AND push_bit n0 (2 ^ n1 - 1)) = g1"
    unfolding a' drop_and using g by (simp add: drop_low and_mask_id)
  have "address_to_coordinate vf [a]
      = Inr [[of_int (a AND (2 ^ n0 - 1)) * e + m0 + e * 0.5,
              of_int (drop_bit n0 (a AND push_bit n0 (2 ^ n1 - 1))) * e + m1 + e * 0.5]]"
    unfolding vf decode_2d [OF dt] n0_def n1_def by (simp only: list.map)
  then show ?thesis
    unfolding d0 d1 g0_def g1_def .
qed

text \<open>
  Encoding that center gives the address again when the center is within the upper
  corner, and is refused by the bounds check otherwise.
\<close>

lemma round_trip_2d:
  fixes e :: real
  assumes e: "0 < e"
    and vf: "vf = \<lparr>minimum_corner = [m0, m1], maximum_corner = [M0, M1], edge_length = e,
           shifts = [w0], widths = ws, masks = ks\<rparr>"
    and enc: "coordinate_to_address vf [[x, y]] = Inr [a]"
  shows "coordinate_to_address vf
           [[of_int \<lfloor>(x - m0) / e\<rfloor> * e + m0 + e * 0.5,
             of_int \<lfloor>(y - m1) / e\<rfloor> * e + m1 + e * 0.5]]
     = (if of_int \<lfloor>(x - m0) / e\<rfloor> * e + m0 + e * 0.5 \<le> M0
           \<and> of_int \<lfloor>(y - m1) / e\<rfloor> * e + m1 + e * 0.5 \<le> M1
        then Inr [a]
        else Inl (ValueError ''some points fall outside filter bounding region''))"
proof -
  define g0 g1 where "g0 = \<lfloor>(x - m0) / e\<rfloor>" and "g1 = \<lfloor>(y - m1) / e\<rfloor>"
  from enc have inb: "m0 \<le> x" "m1 \<le> y"
    and a: "a = int64 (g0 + int64 (push_bit (nat w0) g1))"
    unfolding vf encode_2d g0_def g1_def by (auto split: if_splits)
  have g: "0 \<le> g0" "0 \<le> g1"
    using e inb by (simp_all add: g0_def g1_def)
  have lower: "m0 \<le> of_int g0 * e + m0 + e * 0.5" "m1 \<le> of_int g1 * e + m1 + e * 0.5"
    using g e by simp_all
  show ?thesis
    unfolding vf encode_2d using lower
    by (auto simp: floor_cell_center [OF e] a simp flip: g0_def g1_def)
qed

lemma cell_center_3d:
  fixes e :: real
  assumes e: "0 < e" and w: "0 < w0" "0 < w1" "0 < w2" "w0 + w1 + w2 \<le> 63"
    and vf: "vf = \<lparr>minimum_corner = [m0, m1, m2], maximum_corner = [M0, M1, M2],
           edge_length = e, shifts = [w0, w0 + w1], widths = [w0, w1, w2],
           masks = [2 ^ nat w0 - 1, push_bit (nat w0) (2 ^ nat w1 - 1),
                    push_bit (nat (w0 + w1)) (2 ^ nat w2 - 1)]\<rparr>"
    and enc: "coordinate_to_address vf [[x, y, z]] = Inr [a]"
    and f: "\<lfloor>(x - m0) / e\<rfloor> < 2 ^ nat w0" "\<lfloor>(y - m1) / e\<rfloor> < 2 ^ nat w1"
      "\<lfloor>(z - m2) / e\<rfloor> < 2 ^ nat w2"
  shows "address_to_coordinate vf [a]
     = Inr [[of_int \<lfloor>(x - m0) / e\<rfloor> * e + m0 + e * 0.5,
             of_int \<lfloor>(y - m1) / e\<rfloor> * e + m1 + e * 0.5,
             of_int \<lfloor>(z - m2) / e\<rfloor> * e + m2 + e * 0.5]]"
proof -
  define g0 g1 g2 where "g0 = \<lfloor>(x - m0) / e\<rfloor>" and "g1 = \<lfloor>(y - m1) / e\<rfloor>"
    and "g2 = \<lfloor>(z - m2) / e\<rfloor>"
  define n0 n1 n2 where "n0 = nat w0" and "n1 = nat w1" and "n2 = nat w2"
  have n01: "nat (w0 + w1) = n0 + n1" using w by (simp add: n0_def n1_def nat_add_distrib)
  have n: "n0 + n1 + n2 \<le> 63" "n0 + n1 \<le> 63" using w by (simp_all add: n0_def n1_def n2_def)
  from enc have inb: "m0 \<le> x" "m1 \<le> y" "m2 \<le> z"
    and a: "a = int64 (g0 + (int64 (push_bit n0 g1) + int64 (push_bit (n0 + n1) g2)))"
    unfolding vf encode_3d g0_def g1_def g2_def n0_def n1_def n01 [unfolded n0_def n1_def]
    by (auto split: if_splits)
  have g: "0 \<le> g0" "g0 < 2 ^ n0" "0 \<le> g1" "g1 < 2 ^ n1" "0 \<le> g2" "g2 < 2 ^ n2"
    using f e inb by (simp_all add: g0_def g1_def g2_def n0_def n1_def n2_def)
  note fb1 = field_bound [OF g(1,2,3,4)]
  note fb2 = field_bound [OF fb1(1,2) g(5,6)]
  have "int64 (push_bit n0 g1) = push_bit n0 g1"
    using fb1(3) below_2_63 [OF fb1(4) n(2)] by (rule int64_id)
  moreover have "int64 (push_bit (n0 + n1) g2) = push_bit (n0 + n1) g2"
    using fb2(3) below_2_63 [OF fb2(4) n(1)] by (rule int64_id)
  moreover have "int64 (g0 + push_bit n0 g1 + push_bit (n0 + n1) g2)
      = g0 + push_bit n0 g1 + push_bit (n0 + n1) g2"
    using fb2(1) below_2_63 [OF fb2(2) n(1)] by (rule int64_id)
  ultimately have a': "a = g0 + push_bit n0 g1 + push_bit (n0 + n1) g2"
    using a by (simp add: add.assoc)
  have "0 \<le> a" "a < 2 ^ 63"
    unfolding a' using fb2(1) below_2_63 [OF fb2(2) n(1)] by simp_all
  then have dt: "atleast_1d_dtype [a] = Int64"
    by (intro atleast_1d_int64) auto
  have a'': "a = g0 + push_bit n0 (g1 + push_bit n1 g2)"
    unfolding a' by (simp add: push_bit_add push_bit_eq_mult power_add algebra_simps)
  have d0: "a AND (2 ^ n0 - 1) = g0"
    unfolding a'' using g by (intro and_mask_low)
  have "drop_bit n0 a = g1 + push_bit n1 g2"
    unfolding a'' using g by (intro drop_low)
  then have d1: "drop_bit n0 (a AND push_bit n0 (2 ^ n1 - 1)) = g1"
    unfolding drop_and using g(3,4) by (simp only: and_mask_low)
  have "drop_bit (n0 + n1) a = g2"
    unfolding a' using fb1(1,2) by (intro drop_low)
  then have d2: "drop_bit (n0 + n1) (a AND push_bit (n0 + n1) (2 ^ n2 - 1)) = g2"
    unfolding drop_and using g(5,6) by (simp only: and_mask_id)
  have "address_to_coordinate vf [a]
      = Inr [[of_int (a AND (2 ^ n0 - 1)) * e + m0 + e * 0.5,
              of_int (drop_bit n0 (a AND push_bit n0 (2 ^ n1 - 1))) * e + m1 + e * 0.5,
              of_int (drop_bit (n0 + n1) (a AND push_bit (n0 + n1) (2 ^ n2 - 1))) * e + m2 + e * 0.5]]"
    unfolding vf decode_3d [OF dt] n01 unfolding n0_def n1_def n2_def by (simp only: list.map)
  then show ?thesis
    unfolding d0 d1 d2 g0_def g1_def g2_def .
qed

lemma round_trip_3d:
  fixes e :: real
  assumes e: "0 < e"
    and vf: "vf = \<lparr>minimum_corner = [m0, m1, m2], maximum_corner = [M0, M1, M2],
           edge_length = e, shifts = [w0, s2], widths = ws, masks = ks\<rparr>"
    and enc: "coordinate_to_address vf [[x, y, z]] = Inr [a]"
  shows "coordinate_to_address vf
           [[of_int \<lfloor>(x - m0) / e\<rfloor> * e + m0 + e * 0.5,
             of_int \<lfloor>(y - m1) / e\<rfloor> * e + m1 + e * 0.5,
             of_int \<lfloor>(z - m2) / e\<rfloor> * e + m2 + e * 0.5]]
     = (if of_int \<lfloor>(x - m0) / e\<rfloor> * e + m0 + e * 0.5 \<le> M0
           \<and> of_int \<lfloor>(y - m1) / e\<rfloor> * e + m1 + e * 0.5 \<le> M1
           \<and> of_int \<lfloor>(z - m2) / e\<rfloor> * e + m2 + e * 0.5 \<le> M2
        then Inr [a]
        else Inl (ValueError ''some points fall outside filter bounding region''))"
proof -
  define g0 g1 g2 where "g0 = \<lfloor>(x - m0) / e\<rfloor>" and "g1 = \<lfloor>(y - m1) / e\<rfloor>"
    and "g2 = \<lfloor>(z - m2) / e\<rfloor>"
  from enc have inb: "m0 \<le> x" "m1 \<le> y" "m2 \<le> z"
    and a: "a = int64 (g0 + (int64 (push_bit (nat w0) g1) + int64 (push_bit (nat s2) g2)))"
    unfolding vf encode_3d g0_def g1_def g2_def by (auto split: if_splits)
  have g: "0 \<le> g0" "0 \<le> g1" "0 \<le> g2"
    using e inb by (simp_all add: g0_def g1_def g2_def)
  have lower: "m0 \<le> of_int g0 * e + m0 + e * 0.5" "m1 \<le> of_int g1 * e + m1 + e * 0.5"
    "m2 \<le> of_int g2 * e + m2 + e * 0.5"
    using g e by simp_all
  show ?thesis
    unfolding vf encode_3d using lower
    by (auto simp: floor_cell_center [OF e] a simp flip: g0_def g1_def g2_def)
qed

text \<open>
  The round trip on a constructed filter whose widths sum to at most 63, for a point
  whose grid coordinates fit their bit fields.
\<close>

lemma round_trip_general:
  assumes init: "VoxelFilter_init points edge = Inr vf"
    and edge: "0 < edge"
    and total: "sum_list (widths vf) \<le> 63"
    and enc: "coordinate_to_address vf [p] = Inr [a]"
    and fields: "\<forall>k<length p. \<lfloor>(p ! k - minimum_corner vf ! k) / edge\<rfloor> < 2 ^ nat (widths vf ! k)"
    and c: "c = map2 (\<lambda>x m. of_int \<lfloor>(x - m) / edge\<rfloor> * edge + m + edge * 0.5) p (minimum_corner vf)"
  shows "address_to_coordinate vf [a] = Inr [c]
     \<and> coordinate_to_address vf [c]
         = (if \<forall>k<length c. c ! k \<le> maximum_corner vf ! k then Inr [a]
            else Inl (ValueError ''some points fall outside filter bounding region''))"
proof -
  from init have "ncols points = 2 \<or> ncols points = 3"
    by (rule VoxelFilter_init_Inr)
  then show ?thesis
  proof
    assume d: "ncols points = 2"
    with init obtain l0 l1 h0 h1 w0 w1 where w: "0 < w0" "0 < w1" and
      vf0: "vf = \<lparr>minimum_corner = [l0 - edge / 2, l1 - edge / 2],
           maximum_corner = [h0 + edge / 2, h1 + edge / 2], edge_length = edge,
           shifts = [w0], widths = [w0, w1],
           masks = [2 ^ nat w0 - 1, int64 (push_bit (nat w0) (2 ^ nat w1 - 1))]\<rparr>"
      by (rule VoxelFilter_init_2d)
    have sum: "w0 + w1 \<le> 63" using total vf0 by simp
    have "nat w0 + nat w1 \<le> 63" using sum w by simp
    note vf = vf0 [unfolded mask_int64_id [OF this]]
    have "length p = 2" using encode_length [OF enc] vf by simp
    then obtain x y where p: "p = [x, y]" using list2 by blast
    have f: "\<lfloor>(x - (l0 - edge / 2)) / edge\<rfloor> < 2 ^ nat w0"
      "\<lfloor>(y - (l1 - edge / 2)) / edge\<rfloor> < 2 ^ nat w1"
      using fields unfolding p vf by (simp_all add: All_less_Suc)
    have c': "c = [of_int \<lfloor>(x - (l0 - edge / 2)) / edge\<rfloor> * edge + (l0 - edge / 2) + edge * 0.5,
        of_int \<lfloor>(y - (l1 - edge / 2)) / edge\<rfloor> * edge + (l1 - edge / 2) + edge * 0.5]"
      unfolding c p vf by simp
    have all: "(\<forall>k<length c. c ! k \<le> maximum_corner vf ! k)
        \<longleftrightarrow> (c ! 0 \<le> h0 + edge / 2 \<and> c ! 1 \<le> h1 + edge / 2)"
      unfolding c' vf by (auto simp: less_Suc_eq)
    show ?thesis
      unfolding all
      using cell_center_2d [OF edge w sum vf enc [unfolded p] f]
        round_trip_2d [OF edge vf enc [unfolded p]]
      unfolding c' by simp
  next
    assume d: "ncols points = 3"
    with init obtain l0 l1 l2 h0 h1 h2 w0 w1 w2 where w: "0 < w0" "0 < w1" "0 < w2" and
      vf0: "vf = \<lparr>minimum_corner = [l0 - edge / 2, l1 - edge / 2, l2 - edge / 2],
           maximum_corner = [h0 + edge / 2, h1 + edge / 2, h2 + edge / 2], edge_length = edge,
           shifts = [w0, w0 + w1], widths = [w0, w1, w2],
           masks = [2 ^ nat w0 - 1, int64 (push_bit (nat w0) (2 ^ nat w1 - 1)),
                    int64 (push_bit (nat (w0 + w1)) (2 ^ nat w2 - 1))]\<rparr>"
      by (rule VoxelFilter_init_3d)
    have sum: "w0 + w1 + w2 \<le> 63" using total vf0 by simp
    have n: "nat w0 + nat w1 \<le> 63" "nat (w0 + w1) + nat w2 \<le> 63" using sum w by simp_all
    note vf = vf0 [unfolded mask_int64_id [OF n(1)] mask_int64_id [OF n(2)]]
    have "length p = 3" using encode_length [OF enc] vf by simp
    then obtain x y z where p: "p = [x, y, z]" using list3 by blast
    have f: "\<lfloor>(x - (l0 - edge / 2)) / edge\<rfloor> < 2 ^ nat w0"
      "\<lfloor>(y - (l1 - edge / 2)) / edge\<rfloor> < 2 ^ nat w1"
      "\<lfloor>(z - (l2 - edge / 2)) / edge\<rfloor> < 2 ^ nat w2"
      using fields unfolding p vf by (simp_all add: All_less_Suc)
    have c': "c = [of_int \<lfloor>(x - (l0 - edge / 2)) / edge\<rfloor> * edge + (l0 - edge / 2) + edge * 0.5,
        of_int \<lfloor>(y - (l1 - edge / 2)) / edge\<rfloor> * edge + (l1 - edge / 2) + edge * 0.5,
        of_int \<lfloor>(z - (l2 - edge / 2)) / edge\<rfloor> * edge + (l2 - edge / 2) + edge * 0.5]"
      unfolding c p vf by simp
    have all: "(\<forall>k<length c. c ! k \<le> maximum_corner vf ! k)
        \<longleftrightarrow> (c ! 0 \<le> h0 + edge / 2 \<and> c ! 1 \<le> h1 + edge / 2 \<and> c ! 2 \<le> h2 + edge / 2)"
      unfolding c' vf by (auto simp: less_Suc_eq numeral_2_eq_2)
    show ?thesis
      unfolding all
      using cell_center_3d [OF edge w sum vf enc [unfolded p] f]
        round_trip_3d [OF edge vf enc [unfolded p]]
      unfolding c' by simp
  qed
qed

text \<open>
  Inside the bounding box of the points the filter was built from (before the
  padding by half an edge), every grid coordinate fits its bit field and every cell
  center is within the upper corner, so the round trip holds there.
\<close>

lemma axis_in_box:
  fixes e :: real
  assumes e: "0 < e" and x: "l \<le> x" "x \<le> h"
    and w: "0 < w" "w = \<lceil>log 2 ((h + e / 2 - (l - e / 2)) / e)\<rceil>"
  shows "\<lfloor>(x - (l - e / 2)) / e\<rfloor> < 2 ^ nat w"
    and "of_int \<lfloor>(x - (l - e / 2)) / e\<rfloor> * e + (l - e / 2) + e * 0.5 \<le> h + e / 2"
proof -
  let ?S = "(h + e / 2 - (l - e / 2)) / e"
  let ?t = "(x - (l - e / 2)) / e"
  have S: "?S = (h - l) / e + 1" using e by (simp add: field_simps)
  have hl: "0 \<le> (h - l) / e" using e x by simp
  have Spos: "0 < ?S" using hl unfolding S by linarith
  have "log 2 ?S \<le> of_int w" unfolding w(2) by (rule le_of_int_ceiling)
  then have "?S \<le> 2 powr (of_int w)" using Spos by (simp add: log_le_iff)
  also have "2 powr (of_int w) = (2::real) ^ nat w"
  proof -
    have "of_int w = real (nat w)" using w(1) by simp
    then show ?thesis by (simp only: powr_realpow zero_less_numeral)
  qed
  finally have S2: "?S \<le> 2 ^ nat w" .
  have t: "?t = (x - l) / e + 1 / 2" using e by (simp add: field_simps)
  have "(x - l) / e \<le> (h - l) / e" using e x by (intro divide_right_mono) auto
  then have tS: "?t < ?S" unfolding t S by linarith
  have fl: "of_int \<lfloor>?t\<rfloor> \<le> ?t" by simp
  have "?t < of_int (2 ^ nat w)"
    using tS S2 by simp
  then show "\<lfloor>?t\<rfloor> < 2 ^ nat w" by (simp only: floor_less_iff)
  have "of_int \<lfloor>?t\<rfloor> * e \<le> ?t * e" using fl e by (intro mult_right_mono) auto
  also have "?t * e = x - l + e / 2" using e by (simp add: field_simps)
  finally show "of_int \<lfloor>?t\<rfloor> * e + (l - e / 2) + e * 0.5 \<le> h + e / 2"
    using x by simp
qed

lemma round_trip_bounding_box:
  assumes init: "VoxelFilter_init points edge = Inr vf" and edge: "0 < edge"
    and total: "sum_list (widths vf) \<le> 63"
    and lo: "amin0 points = Inr lowest" and hi: "amax0 points = Inr highest"
    and len: "length p = ncols points"
    and box: "\<forall>k<length p. lowest ! k \<le> p ! k \<and> p ! k \<le> highest ! k"
  shows "\<exists>a c. coordinate_to_address vf [p] = Inr [a]
     \<and> address_to_coordinate vf [a] = Inr [c]
     \<and> coordinate_to_address vf [c] = Inr [a]"
proof -
  define c where "c = map2 (\<lambda>x m. of_int \<lfloor>(x - m) / edge\<rfloor> * edge + m + edge * 0.5) p
    (minimum_corner vf)"
  from init have "ncols points = 2 \<or> ncols points = 3"
    by (rule VoxelFilter_init_Inr)
  then have "\<exists>a. coordinate_to_address vf [p] = Inr [a]
      \<and> (\<forall>k<length p. \<lfloor>(p ! k - minimum_corner vf ! k) / edge\<rfloor> < 2 ^ nat (widths vf ! k))
      \<and> (\<forall>k<length c. c ! k \<le> maximum_corner vf ! k)"
  proof
    assume d: "ncols points = 2"
    with init obtain l0 l1 h0 h1 w0 w1 where
      lh: "amin0 points = Inr [l0, l1]" "amax0 points = Inr [h0, h1]"
      and wd: "w0 = \<lceil>log 2 ((h0 + edge / 2 - (l0 - edge / 2)) / edge)\<rceil>"
        "w1 = \<lceil>log 2 ((h1 + edge / 2 - (l1 - edge / 2)) / edge)\<rceil>"
      and w: "0 < w0" "0 < w1"
      and vf: "vf = \<lparr>minimum_corner = [l0 - edge / 2, l1 - edge / 2],
           maximum_corner = [h0 + edge / 2, h1 + edge / 2], edge_length = edge,
           shifts = [w0], widths = [w0, w1],
           masks = [2 ^ nat w0 - 1, int64 (push_bit (nat w0) (2 ^ nat w1 - 1))]\<rparr>"
      by (rule VoxelFilter_init_2d)
    obtain x y where p: "p = [x, y]" using len d list2 by metis
    have b: "l0 \<le> x" "x \<le> h0" "l1 \<le> y" "y \<le> h1"
      using box lo hi lh unfolding p by (auto simp: All_less_Suc)
    note ax0 = axis_in_box [OF edge b(1,2) w(1) wd(1)]
    note ax1 = axis_in_box [OF edge b(3,4) w(2) wd(2)]
    have inb: "\<not> (x < l0 - edge / 2 \<or> y < l1 - edge / 2 \<or> h0 + edge / 2 < x \<or> h1 + edge / 2 < y)"
      using b edge by auto
    have "\<exists>a. coordinate_to_address vf [p] = Inr [a]"
      unfolding p vf encode_2d using inb by simp
    moreover have "\<forall>k<length p. \<lfloor>(p ! k - minimum_corner vf ! k) / edge\<rfloor> < 2 ^ nat (widths vf ! k)"
      unfolding p vf using ax0(1) ax1(1) by (simp add: All_less_Suc)
    moreover have "\<forall>k<length c. c ! k \<le> maximum_corner vf ! k"
      unfolding c_def p vf using ax0(2) ax1(2) by (simp add: All_less_Suc)
    ultimately show ?thesis by blast
  next
    assume d: "ncols points = 3"
    with init obtain l0 l1 l2 h0 h1 h2 w0 w1 w2 where
      lh: "amin0 points = Inr [l0, l1, l2]" "amax0 points = Inr [h0, h1, h2]"
      and wd: "w0 = \<lceil>log 2 ((h0 + edge / 2 - (l0 - edge / 2)) / edge)\<rceil>"
        "w1 = \<lceil>log 2 ((h1 + edge / 2 - (l1 - edge / 2)) / edge)\<rceil>"
        "w2 = \<lceil>log 2 ((h2 + edge / 2 - (l2 - edge / 2)) / edge)\<rceil>"
      and w: "0 < w0" "0 < w1" "0 < w2"
      and vf: "vf = \<lparr>minimum_corner = [l0 - edge / 2, l1 - edge / 2, l2 - edge / 2],
           maximum_corner = [h0 + edge / 2, h1 + edge / 2, h2 + edge / 2], edge_length = edge,
           shifts = [w0, w0 + w1], widths = [w0, w1, w2],
           masks = [2 ^ nat w0 - 1, int64 (push_bit (nat w0) (2 ^ nat w1 - 1)),
                    int64 (push_bit (nat (w0 + w1)) (2 ^ nat w2 - 1))]\<rparr>"
      by (rule VoxelFilter_init_3d)
    obtain x y z where p: "p = [x, y, z]" using len d list3 by metis
    have b: "l0 \<le> x" "x \<le> h0" "l1 \<le> y" "y \<le> h1" "l2 \<le> z" "z \<le> h2"
      using box lo hi lh unfolding p by (auto simp: All_less_Suc)
    note ax0 = axis_in_box [OF edge b(1,2) w(1) wd(1)]
    note ax1 = axis_in_box [OF edge b(3,4) w(2) wd(2)]
    note ax2 = axis_in_box [OF edge b(5,6) w(3) wd(3)]
    have inb: "\<not> (x < l0 - edge / 2 \<or> y < l1 - edge / 2 \<or> z < l2 - edge / 2
        \<or> h0 + edge / 2 < x \<or> h1 + edge / 2 < y \<or> h2 + edge / 2 < z)"
      using b edge by auto
    have "\<exists>a. coordinate_to_address vf [p] = Inr [a]"
      unfolding p vf encode_3d using inb by simp
    moreover have "\<forall>k<length p. \<lfloor>(p ! k - minimum_corner vf ! k) / edge\<rfloor> < 2 ^ nat (widths vf ! k)"
      unfolding p vf using ax0(1) ax1(1) ax2(1) by (simp add: All_less_Suc)
    moreover have "\<forall>k<length c. c ! k \<le> maximum_corner vf ! k"
      unfolding c_def p vf using ax0(2) ax1(2) ax2(2) by (simp add: All_less_Suc)
    ultimately show ?thesis by blast
  qed
  then obtain a where enc: "coordinate_to_address vf [p] = Inr [a]"
    and f: "\<forall>k<length p. \<lfloor>(p ! k - minimum_corner vf ! k) / edge\<rfloor> < 2 ^ nat (widths vf ! k)"
    and inside: "\<forall>k<length c. c ! k \<le> maximum_corner vf ! k"
    by blast
  from round_trip_general [OF init edge total enc f c_def] inside
  have "address_to_coordinate vf [a] = Inr [c]" "coordinate_to_address vf [c] = Inr [a]"
    by simp_all
  with enc show ?thesis by blast
qed

text \<open>In particular for each point of the cloud the filter was built from.\<close>

lemma round_trip_cloud_point:
  assumes init: "VoxelFilter_init points edge = Inr vf" and edge: "0 < edge"
    and total: "sum_list (widths vf) \<le> 63"
    and i: "i < length points"
  shows "\<exists>a c. coordinate_to_address vf [points ! i] = Inr [a]
     \<and> address_to_coordinate vf [a] = Inr [c]
     \<and> coordinate_to_address vf [c] = Inr [a]"
proof -
  from init obtain lowest highest where
    r: "is_2d points" and lo: "amin0 points = Inr lowest" and hi: "amax0 points = Inr highest"
    by (rule VoxelFilter_init_Inr)
  have len: "length (points ! i) = ncols points" using r i by (rule is_2d_nth)
  have "\<forall>k<length (points ! i). lowest ! k \<le> points ! i ! k \<and> points ! i ! k \<le> highest ! k"
    using amin0_le [OF r lo i] amax0_ge [OF r hi i] len by simp
  then show ?thesis
    by (rule round_trip_bounding_box [OF init edge total lo hi len])
qed

section \<open>Where the round trip fails\<close>

lemma ceiling_log2_17_4: "\<lceil>log 2 (17 / 4 :: real)\<rceil> = 3"
  using ceiling_log2_eqI [of 2 "17 / 4"] by simp

lemma quarter_filter_init: "VoxelFilter_init [[0, 0], [13 / 4, 13 / 4]] 1 = Inr quarter_filter"
  by (simp add: VoxelFilter_init_def is_2d_def ncols_def calculate_shift_def calculate_masks_def
      MAX_ADDRESS_LENGTH_def cumsum_def ceiling_log2_17_4 enumerate_eq_zip quarter_filter_def
      int64_def)

lemma ceiling_log2_wide: "\<lceil>log 2 (3000000001 :: real)\<rceil> = 32"
  using ceiling_log2_eqI [of 31 3000000001] by simp

lemma wide_filter_init:
  "VoxelFilter_init [[0, 0], [3000000000, 3000000000]] 1 = Inr wide_filter"
  by (simp add: VoxelFilter_init_def is_2d_def ncols_def calculate_shift_def calculate_masks_def
      MAX_ADDRESS_LENGTH_def cumsum_def ceiling_log2_wide enumerate_eq_zip wide_filter_def
      int64_def push_bit_eq_mult)

text \<open>
  Claim C6, as stated for every address that \<^verbatim>\<open>coordinate_to_address\<close> produces,
  fails. The filter of the points \<open>[[0,0],[3.25,3.25]]\<close> with edge length 1 has the
  upper corner \<open>(3.75,3.75)\<close> and three bits per axis. The point \<open>(3.5,0)\<close> is within
  the bounds and has the address 4; the address 4 decodes to the cell center
  \<open>(4,0)\<close>, which lies beyond the upper corner, and \<^verbatim>\<open>_check_in_bounds\<close> rejects it
  when it is encoded again.
\<close>

theorem round_trip_leaves_bounds:
  "VoxelFilter_init [[0, 0], [13 / 4, 13 / 4]] 1 = Inr quarter_filter
   \<and> coordinate_to_address quarter_filter [[7 / 2, 0]] = Inr [4]
   \<and> address_to_coordinate quarter_filter [4] = Inr [[4, 0]]
   \<and> coordinate_to_address quarter_filter [[4, 0]]
       = Inl (ValueError ''some points fall outside filter bounding region'')"
  unfolding quarter_filter_init
  by (simp add: quarter_filter_def encode_2d decode_2d atleast_1d_dtype_def int64_def)

text \<open>
  A grid coordinate can reach \<open>2 ^ widths[k]\<close>: the bounds check admits the upper
  corner itself, and where the span is a power of two times the edge length the
  floor there is \<open>2 ^ widths[k]\<close>. For the points \<open>[[0,0],[3,3]]\<close> with edge length 1
  the point \<open>(0,3.5)\<close> gets the address 16, outside both masks; it decodes to
  \<open>(0,0)\<close>, whose address is 0.
\<close>

lemma upper_face_address:
  "\<exists>vf. VoxelFilter_init [[0, 0], [3, 3]] 1 = Inr vf
   \<and> coordinate_to_address vf [[0, 7 / 2]] = Inr [16]
   \<and> address_to_coordinate vf [16] = Inr [[0, 0]]
   \<and> coordinate_to_address vf [[0, 0]] = Inr [0]"
  by (simp add: VoxelFilter_init_def is_2d_def ncols_def calculate_shift_def calculate_masks_def
      MAX_ADDRESS_LENGTH_def cumsum_def ceiling_log2_4 enumerate_eq_zip encode_2d decode_2d
      atleast_1d_dtype_def int64_def)

text \<open>
  When the widths sum to 64 the last bit field holds the sign bit of the
  \<^verbatim>\<open>np.int64\<close> address and the last mask is negative. The filter of the points
  \<open>[[0,0],[3000000000,3000000000]]\<close> with edge length 1 has 32 bits per axis. The point
  \<open>(0,3000000000)\<close> is within the bounds and its grid coordinate 3000000000 is below
  \<open>2 ^ 32\<close>, but shifted left by 32 it wraps to a negative address, which the
  arithmetic right shift decodes to the coordinate \<open>-1294967296\<close>, far below the lower
  corner.
\<close>

lemma sign_bit_address:
  "VoxelFilter_init [[0, 0], [3000000000, 3000000000]] 1 = Inr wide_filter
   \<and> sum_list (widths wide_filter) = 64
   \<and> coordinate_to_address wide_filter [[0, 3000000000]] = Inr [- 5561842185709551616]
   \<and> address_to_coordinate wide_filter [- 5561842185709551616] = Inr [[0, - 1294967296]]
   \<and> coordinate_to_address wide_filter [[0, - 1294967296]]
       = Inl (ValueError ''some points fall outside filter bounding region'')"
  unfolding wide_filter_init
  by (simp add: wide_filter_def encode_2d decode_2d atleast_1d_dtype_def int64_def
      push_bit_eq_mult drop_bit_eq_div)

text \<open>
  Claim C6, amended. Take a constructed filter with a positive edge length whose bit
  widths sum to at most 63, and an address \<open>a\<close> that \<^verbatim>\<open>coordinate_to_address\<close> returns
  for a point \<open>p\<close> whose grid coordinate \<open>floor((p[k] - minimum_corner[k]) / edge_length)\<close>
  is below \<open>2 ^ widths[k]\<close> on every axis. Then \<^verbatim>\<open>address_to_coordinate\<close> returns for
  \<open>a\<close> the center \<open>c\<close> of the cell of \<open>p\<close>, and encoding \<open>c\<close> returns \<open>a\<close> again if \<open>c\<close>
  is within the upper corner on every axis, and the ValueError of the bounds check
  otherwise.
\<close>

theorem round_trip:
  assumes "VoxelFilter_init points edge = Inr vf"
    and "0 < edge"
    and "sum_list (widths vf) \<le> 63"
    and "coordinate_to_address vf [p] = Inr [a]"
    and "\<forall>k<length p. \<lfloor>(p ! k - minimum_corner vf ! k) / edge\<rfloor> < 2 ^ nat (widths vf ! k)"
    and "c = map2 (\<lambda>x m. of_int \<lfloor>(x - m) / edge\<rfloor> * edge + m + edge * 0.5) p (minimum_corner vf)"
  shows "address_to_coordinate vf [a] = Inr [c]
     \<and> coordinate_to_address vf [c]
         = (if \<forall>k<length c. c ! k \<le> maximum_corner vf ! k then Inr [a]
            else Inl (ValueError ''some points fall outside filter bounding region''))"
  using assms by (rule round_trip_general)

theorem round_trip_witness:
  "coordinate_to_address example_filter [[27 / 10, 21 / 5]] = Inr [19]
   \<and> address_to_coordinate example_filter [19] = Inr [[3, 4]]
   \<and> coordinate_to_address example_filter [[3, 4]] = Inr [19]
   \<and> coordinate_to_address quarter_filter [[7 / 2, 0]] = Inr [4]
   \<and> address_to_coordinate quarter_filter [4] = Inr [[4, 0]]
   \<and> coordinate_to_address quarter_filter [[4, 0]]
       = Inl (ValueError ''some points fall outside filter bounding region'')"
proof -
  have enc: "coordinate_to_address example_filter [[27 / 10, 21 / 5]] = Inr [19]"
    by (simp add: example_filter_def encode_2d int64_def)
  have w: "sum_list (widths example_filter) \<le> 63"
    by (simp add: example_filter_def)
  have f: "\<forall>k<length [27 / 10, 21 / 5 :: real].
      \<lfloor>([27 / 10, 21 / 5] ! k - minimum_corner example_filter ! k) / 1\<rfloor>
        < 2 ^ nat (widths example_filter ! k)"
    by (simp add: example_filter_def All_less_Suc)
  have c: "[3, 4] = map2 (\<lambda>x m. of_int \<lfloor>(x - m) / 1\<rfloor> * 1 + m + 1 * 0.5) [27 / 10, 21 / 5 :: real]
      (minimum_corner example_filter)"
    by (simp add: example_filter_def)
  have inside: "\<forall>k<length [3, 4 :: real]. [3, 4] ! k \<le> maximum_corner example_filter ! k"
    by (simp add: example_filter_def All_less_Suc)
  have enc': "coordinate_to_address quarter_filter [[7 / 2, 0]] = Inr [4]"
    by (simp add: quarter_filter_def encode_2d int64_def)
  have w': "sum_list (widths quarter_filter) \<le> 63"
    by (simp add: quarter_filter_def)
  have f': "\<forall>k<length [7 / 2, 0 :: real].
      \<lfloor>([7 / 2, 0] ! k - minimum_corner quarter_filter ! k) / 1\<rfloor>
        < 2 ^ nat (widths quarter_filter ! k)"
    by (simp add: quarter_filter_def All_less_Suc)
  have c': "[4, 0] = map2 (\<lambda>x m. of_int \<lfloor>(x - m) / 1\<rfloor> * 1 + m + 1 * 0.5) [7 / 2, 0 :: real]
      (minimum_corner quarter_filter)"
    by (simp add: quarter_filter_def)
  have outside: "\<not> (\<forall>k<length [4, 0 :: real]. [4, 0] ! k \<le> maximum_corner quarter_filter ! k)"
    by (simp add: quarter_filter_def All_less_Suc)
  show ?thesis
    using round_trip [OF example_filter_init _ w enc f c] inside
      round_trip [OF quarter_filter_init _ w' enc' f' c'] outside enc enc'
    by simp
qed

section \<open>Decoding any 64-bit address\<close>

text \<open>
  Claim C10, as stated for every non-negative integer input, fails at \<open>2 ^ 63\<close>: the
  array of that address is \<^verbatim>\<open>uint64\<close>, and \<^verbatim>\<open>&\<close> with the \<^verbatim>\<open>np.int64\<close> mask of the
  second axis raises a TypeError.
\<close>

theorem decode_refuses_uint64_address:
  "address_to_coordinate example_filter [9223372036854775808]
     = Inl (TypeError ''ufunc bitwise_and not supported for the input types'')"
  by (simp add: address_to_coordinate_def atleast_1d_dtype_def example_filter_def)

text \<open>
  Claim C10, amended. On a filter constructed with a positive edge length,
  \<^verbatim>\<open>address_to_coordinate\<close> returns for every non-empty list of integer addresses
  from 0 to \<open>2 ^ 63 - 1\<close>, whether or not \<^verbatim>\<open>coordinate_to_address\<close> produced them
  and whether or not their grid coordinates lie on the grid: it tests no bound and
  no dimensionality. Each address gives the center of the cell read from its masked
  bits: on axis \<open>k\<close> the bits under \<open>masks[k]\<close>, shifted right by the shift of the axis
  (none for axis 0), times the edge length, plus the minimum corner and half an
  edge. \<^verbatim>\<open>coordinate_to_address\<close> does test the bounds: it refuses every point of the
  filter's dimensionality with a coordinate beyond a corner.
\<close>

theorem decode_int64_addresses:
  assumes "VoxelFilter_init points edge = Inr vf" and "0 < edge"
    and "addresses \<noteq> []" and "\<forall>a\<in>set addresses. 0 \<le> a \<and> a < 2 ^ 63"
  shows "address_to_coordinate vf addresses =
       Inr (map (\<lambda>a. map (\<lambda>k. of_int (drop_bit (nat ((0 # shifts vf) ! k)) (a AND masks vf ! k))
                               * edge_length vf + minimum_corner vf ! k + edge_length vf * 0.5)
                       [0..<length (masks vf)]) addresses)
     \<and> (\<forall>p. length p = length (masks vf)
            \<and> (\<exists>k<length p. p ! k < minimum_corner vf ! k \<or> maximum_corner vf ! k < p ! k)
          \<longrightarrow> coordinate_to_address vf [p]
                = Inl (ValueError ''some points fall outside filter bounding region''))"
proof -
  have "atleast_1d_dtype addresses = Int64"
    using assms(3,4) by (intro atleast_1d_int64) auto
  then show ?thesis
    using decode_constructed [OF assms(1)] encode_rejects_outside [OF assms(1)] by blast
qed

theorem decode_int64_addresses_witness:
  "address_to_coordinate example_filter [31, 1000] = Inr [[3, 7], [0, 2]]
   \<and> coordinate_to_address example_filter [[3, 7]]
       = Inl (ValueError ''some points fall outside filter bounding region'')"
proof -
  have r: "\<forall>a\<in>set [31, 1000 :: int]. 0 \<le> a \<and> a < 2 ^ 63" by simp
  have out: "length [3, 7 :: real] = length (masks example_filter)
      \<and> (\<exists>k<length [3, 7 :: real]. [3, 7] ! k < minimum_corner example_filter ! k
            \<or> maximum_corner example_filter ! k < [3, 7] ! k)"
    by (auto simp: example_filter_def intro!: exI [of _ 1])
  have e: "(0::real) < 1" and ne: "[31, 1000 :: int] \<noteq> []" by simp_all
  note t = decode_int64_addresses [OF example_filter_init e ne r]
  have "address_to_coordinate example_filter [31, 1000] = Inr [[3, 7], [0, 2]]"
    using t by (simp add: example_filter_def upt_rec)
  moreover have "coordinate_to_address example_filter [[3, 7]]
       = Inl (ValueError ''some points fall outside filter bounding region'')"
    using t out by blast
  ultimately show ?thesis by simp
qed

section \<open>Construction over the address budget\<close>

text \<open>
  Claim C8. When the shape checks pass and the bit widths
  \<open>ceil(log2(span[i] / edge_length))\<close> of the padded bounding box sum to more than
  64, the constructor returns the ValueError of \<^verbatim>\<open>_calculate_shift\<close> (edge length
  too small to address the space) and no filter. The witness is the point cloud
  spanning \<open>[0, 10^9]\<close> on two axes with edge length \<open>10^-6\<close>, whose widths are 50
  and 50.
\<close>

theorem construction_fails_over_64_bits:
  assumes "is_2d points" and "ncols points \<in> {2, 3}" and "2 \<le> length points" and "0 < edge"
    and "amin0 points = Inr lowest" and "amax0 points = Inr highest"
    and "sum_list (map (\<lambda>s. \<lceil>log 2 (s / edge)\<rceil>)
           (map2 (-) (map (\<lambda>x. x + edge / 2) highest) (map (\<lambda>x. x - edge / 2) lowest))) > 64"
  shows "VoxelFilter_init points edge
     = Inl (ValueError ''edge length is too small to address this space'')"
  using assms
  by (simp add: VoxelFilter_init_def calculate_shift_def MAX_ADDRESS_LENGTH_def Let_def)

lemma ceiling_log2_big: "\<lceil>log 2 (1000000000000001::real)\<rceil> = 50"
  using ceiling_log2_eqI [of 49 "1000000000000001"] by simp

theorem construction_fails_over_64_bits_witness:
  "VoxelFilter_init [[0, 0], [1000000000, 1000000000]] (1 / 1000000)
     = Inl (ValueError ''edge length is too small to address this space'')"
  using construction_fails_over_64_bits [of "[[0, 0], [1000000000, 1000000000]]" "1 / 1000000"
      "[0, 0]" "[1000000000, 1000000000]"]
  by (simp add: is_2d_def ncols_def ceiling_log2_big)

section \<open>Neighbours\<close>

text \<open>
  Claim C9 at every input. For every filter and address, \<^verbatim>\<open>find_neighbors\<close> and
  \<^verbatim>\<open>find_facing_neighbors\<close> raise the NameError of their single statement; no
  neighbour address is computed.
\<close>

theorem neighbors_not_implemented:
  "find_neighbors vf address = Inl (NameError ''find_neighbors not implemented yet'')
   \<and> find_facing_neighbors vf address
       = Inl (NameError ''find_facing_neighbors not implemented yet'')"
  by (simp add: find_neighbors_def find_facing_neighbors_def)

end
